theory Spec2Isabelle
  imports Main "HOL-Library.Sublist"
begin

section \<open>Go strings\<close>

text \<open>
  A Go \<open>string\<close> is a sequence of bytes, as an Isabelle \<open>string\<close> is; \<open>len\<close> is
  \<open>length\<close>. The functions of package \<open>strings\<close> that the repository calls are written
  out here on byte lists.
\<close>

definition HasPrefix :: "string \<Rightarrow> string \<Rightarrow> bool" where
  \<comment> \<open>\<open>strings.HasPrefix(s, prefix)\<close>: \<open>len(s) >= len(prefix) && s[:len(prefix)] == prefix\<close>\<close>
  "HasPrefix s p = (length p \<le> length s \<and> take (length p) s = p)"

definition HasSuffix :: "string \<Rightarrow> string \<Rightarrow> bool" where
  \<comment> \<open>\<open>strings.HasSuffix(s, suffix)\<close>: \<open>len(s) >= len(suffix) && s[len(s)-len(suffix):] == suffix\<close>\<close>
  "HasSuffix s suf = (length suf \<le> length s \<and> drop (length s - length suf) s = suf)"

fun Contains :: "string \<Rightarrow> string \<Rightarrow> bool" where
  \<comment> \<open>\<open>strings.Contains(s, substr)\<close>: some position of \<open>s\<close> starts with \<open>substr\<close>\<close>
  "Contains [] substr = (substr = [])"
| "Contains (c # cs) substr = (HasPrefix (c # cs) substr \<or> Contains cs substr)"

fun Replace1 :: "string \<Rightarrow> string \<Rightarrow> string \<Rightarrow> string" where
  \<comment> \<open>\<open>strings.Replace(s, old, new, 1)\<close>: the first (leftmost) occurrence of \<open>old\<close> is
      replaced by \<open>new\<close>; without an occurrence \<open>s\<close> is returned as it is\<close>
  "Replace1 [] old new = (if old = [] then new else [])"
| "Replace1 (c # cs) old new =
     (if HasPrefix (c # cs) old then new @ drop (length old) (c # cs)
      else c # Replace1 cs old new)"

definition lower_char :: "char \<Rightarrow> char" where
  \<comment> \<open>the bytes \<open>A\<close>..\<open>Z\<close> (65..90) go to \<open>a\<close>..\<open>z\<close>; every other byte stays\<close>
  "lower_char c =
     (let n = (of_char c :: nat) in if 65 \<le> n \<and> n \<le> 90 then char_of (n + 32) else c)"

definition ToLower :: "string \<Rightarrow> string" where
  \<comment> \<open>\<open>strings.ToLower\<close> on the bytes of an ASCII string (network names are ASCII; the
      lower-case mapping of multi-byte runes is not modelled)\<close>
  "ToLower s = map lower_char s"

section \<open>Errors, log lines and observable events\<close>

text \<open>
  Every error of the repository is built by \<open>fmt.Errorf(format, args...)\<close>, and every log
  line by \<open>fmt.Sprintf(format, args...)\<close>. Both are kept unrendered, as the format string
  and the list of its arguments; an argument under \<open>%w\<close> or \<open>%v\<close> that is an error is the
  wrapped cause. Errors of the libraries (\<open>encoding/json\<close>, \<open>net/http\<close>, \<open>io\<close>) are values
  of the same type, supplied by the environment.
\<close>

datatype error = Errorf string "arg list"
  and arg = AInt int | AStr string | AErr error | ANil

fun err_arg :: "error option \<Rightarrow> arg" where
  \<comment> \<open>a Go \<open>error\<close> variable as an argument: \<open>nil\<close> or an error\<close>
  "err_arg None = ANil"
| "err_arg (Some e) = AErr e"

record RPCRequest =
  req_ID :: int
  req_JSONRPC :: string
  req_Method :: string
  req_Params :: "string list"

record RPCError =
  Code :: int
  Message :: string

record RPCResponse =
  resp_ID :: int
  resp_JSONRPC :: string
  resp_Result :: string
  resp_Error :: "RPCError option"

record RuntimeVersion =
  SpecName :: string
  ImplName :: string
  AuthoringVersion :: int
  SpecVersion :: int
  ImplVersion :: int
  TransactionVersion :: int
  StateVersion :: int

datatype level = Info | Warning

datatype event =
    Log level string "arg list"  \<comment> \<open>\<open>util.Logger().Info\<close> / \<open>.Warning\<close>\<close>
  | Sleep int                    \<comment> \<open>\<open>time.Sleep(d)\<close>, \<open>d\<close> in nanoseconds\<close>
  | RPCCall RPCRequest           \<comment> \<open>one invocation of \<open>makeRPCCall\<close>\<close>
  | DaoCreate string int int     \<comment> \<open>\<open>dao.CreateRuntimeVersion(ctx, name, specVersion, blockNum)\<close>\<close>
  | DaoSet int string string     \<comment> \<open>\<open>dao.SetRuntimeData(specVersion, modules, rawData)\<close>\<close>
  | MetadataLatest int string    \<comment> \<open>\<open>metadata.Latest(&metadata.RuntimeRaw{Spec, Raw})\<close>\<close>
  | Invoke string                \<comment> \<open>a call of a service routine that is not modelled further\<close>

section \<open>Collaborators\<close>

text \<open>
  The row of table \<open>runtime_versions\<close> that \<open>dao.RuntimeVersionRecent\<close> returns. Its
  declaration is in package \<open>model\<close>, outside the sources at hand; the fields are those the
  code reads (\<open>RawData\<close>, \<open>SpecVersion\<close>) and those the writes set. The field \<open>SpecVersion\<close>
  is named \<open>RecSpecVersion\<close> here, apart from the field of \<open>RuntimeVersion\<close>.
\<close>

record model_RuntimeVersion =
  Name :: string
  RecSpecVersion :: int
  Modules :: string
  RawData :: string
  BlockNum :: int

text \<open>
  \<open>dao.IDao\<close> is an interface: the three methods used are parameters, acting on a store
  of any type \<open>'s\<close>. Reading does not change the store; each write returns its count and
  the new store.
\<close>

record 's IDao =
  RuntimeVersionRecent :: "'s \<Rightarrow> model_RuntimeVersion option"
  CreateRuntimeVersion :: "string \<Rightarrow> int \<Rightarrow> int \<Rightarrow> 's \<Rightarrow> int \<times> 's"
  SetRuntimeData :: "int \<Rightarrow> string \<Rightarrow> string \<Rightarrow> 's \<Rightarrow> int \<times> 's"

record http_Response =
  StatusCode :: int
  Body :: "error + string"  \<comment> \<open>what \<open>io.ReadAll(httpResp.Body)\<close> yields\<close>

text \<open>
  The node and the libraries. \<open>client_Do\<close> is the HTTP round trip; its answer may depend
  on everything that happened before (the events so far, which include the pauses), on the
  URL and on the request body. The \<open>json_Unmarshal_*\<close> functions are \<open>json.Unmarshal\<close> at
  the four target types of the code.
\<close>

record env =
  json_Marshal :: "RPCRequest \<Rightarrow> error + string"
  http_NewRequest :: "string \<Rightarrow> string \<Rightarrow> string \<Rightarrow> error option"
  client_Do :: "event list \<Rightarrow> string \<Rightarrow> string \<Rightarrow> error + http_Response"
  json_Unmarshal_RPCResponse :: "string \<Rightarrow> error + RPCResponse"
  json_Unmarshal_string :: "string \<Rightarrow> error + string"
  json_Unmarshal_RuntimeVersion :: "string \<Rightarrow> error + RuntimeVersion"
  json_Unmarshal_map :: "string \<Rightarrow> error option"

record 's world =
  store :: 's
  trace :: "event list"

definition emit :: "event \<Rightarrow> 's world \<Rightarrow> 's world" where
  "emit e w = w\<lparr>trace := trace w @ [e]\<rparr>"

definition Logger_Info :: "string \<Rightarrow> arg list \<Rightarrow> 's world \<Rightarrow> 's world" where
  "Logger_Info format args w = emit (Log Info format args) w"

definition Logger_Warning :: "string \<Rightarrow> arg list \<Rightarrow> 's world \<Rightarrow> 's world" where
  "Logger_Warning format args w = emit (Log Warning format args) w"

definition time_Second :: int where
  "time_Second = 1000000000"

definition time_Sleep :: "int \<Rightarrow> 's world \<Rightarrow> 's world" where
  "time_Sleep d w = emit (Sleep d) w"

definition rpc_calls :: "'s world \<Rightarrow> RPCRequest list" where
  \<comment> \<open>the requests handed to \<open>makeRPCCall\<close> so far, in order\<close>
  "rpc_calls w = concat (map (\<lambda>e. case e of RPCCall r \<Rightarrow> [r] | _ \<Rightarrow> []) (trace w))"

definition store_writes :: "'s world \<Rightarrow> event list" where
  \<comment> \<open>the writes issued to the store so far, in order\<close>
  "store_writes w =
     filter (\<lambda>e. case e of DaoCreate _ _ _ \<Rightarrow> True | DaoSet _ _ _ \<Rightarrow> True | _ \<Rightarrow> False) (trace w)"

section \<open>internal/cbc/cbc\_init.go\<close>

record 's CBCInitializer =
  dao :: "'s IDao"
  nodeURL :: string
  httpURL :: string
  retries :: int
  retryWait :: int

definition NewCBCInitializer :: "'s IDao \<Rightarrow> string \<Rightarrow> 's CBCInitializer" where
  "NewCBCInitializer d wsEndpoint =
     (let httpURL = Replace1 wsEndpoint ''ws://'' ''http://'';
          httpURL = Replace1 httpURL ''wss://'' ''https://''
      in \<lparr>dao = d, nodeURL = wsEndpoint, httpURL = httpURL,
          retries = 3, retryWait = 2 * time_Second\<rparr>)"

definition makeRPCCall ::
  "env \<Rightarrow> 's CBCInitializer \<Rightarrow> RPCRequest \<Rightarrow> 's world \<Rightarrow> (error + RPCResponse) \<times> 's world" where
  "makeRPCCall env c req w0 =
     (let w = emit (RPCCall req) w0 in
      case json_Marshal env req of
        Inl err \<Rightarrow> (Inl (Errorf ''failed to marshal request: %w'' [AErr err]), w)
      | Inr reqBody \<Rightarrow>
      (case http_NewRequest env ''POST'' (httpURL c) reqBody of
        Some err \<Rightarrow> (Inl (Errorf ''failed to create request: %w'' [AErr err]), w)
      | None \<Rightarrow>
      (case client_Do env (trace w0) (httpURL c) reqBody of
        Inl err \<Rightarrow> (Inl (Errorf ''failed to make request: %w'' [AErr err]), w)
      | Inr httpResp \<Rightarrow>
          if StatusCode httpResp \<noteq> 200
          then (Inl (Errorf ''unexpected status code: %d'' [AInt (StatusCode httpResp)]), w)
          else
      (case Body httpResp of
        Inl err \<Rightarrow> (Inl (Errorf ''failed to read response: %w'' [AErr err]), w)
      | Inr body \<Rightarrow>
      (case json_Unmarshal_RPCResponse env body of
        Inl err \<Rightarrow> (Inl (Errorf ''failed to unmarshal response: %w'' [AErr err]), w)
      | Inr resp \<Rightarrow>
      (case resp_Error resp of
        Some e \<Rightarrow> (Inl (Errorf ''RPC error: %s (code: %d)'' [AStr (Message e), AInt (Code e)]), w)
      | None \<Rightarrow> (Inr resp, w)))))))"


subsection \<open>Fetching with retry\<close>

definition retry_pause :: "string \<Rightarrow> 's CBCInitializer \<Rightarrow> int \<Rightarrow> 's world \<Rightarrow> 's world" where
  \<comment> \<open>the head of both retry loops: \<open>if i > 0 { Warning(Sprintf(format, i, c.retries));
      time.Sleep(c.retryWait) }\<close>\<close>
  "retry_pause format c i w0 =
     (if i > 0
      then time_Sleep (retryWait c) (Logger_Warning format [AInt i, AInt (retries c)] w0)
      else w0)"

definition metadata_request :: RPCRequest where
  "metadata_request =
     \<lparr>req_ID = 1, req_JSONRPC = ''2.0'', req_Method = ''state_getMetadata'', req_Params = []\<rparr>"

definition fetchMetadata_attempt ::
  "env \<Rightarrow> 's CBCInitializer \<Rightarrow> 's world \<Rightarrow> (error + string) \<times> 's world" where
  \<comment> \<open>one pass through the loop body of \<open>fetchMetadata\<close> after the pause: \<open>Inl err\<close> is
      \<open>lastErr = err; continue\<close>, \<open>Inr metadataHex\<close> is \<open>return metadataHex, nil\<close>\<close>
  "fetchMetadata_attempt env c w0 =
     (case makeRPCCall env c metadata_request w0 of
        (Inl err, w) \<Rightarrow> (Inl err, w)
      | (Inr resp, w) \<Rightarrow>
      (case json_Unmarshal_string env (resp_Result resp) of
        Inl err \<Rightarrow> (Inl (Errorf ''failed to unmarshal metadata: %w'' [AErr err]), w)
      | Inr metadataHex \<Rightarrow>
          if \<not> HasPrefix metadataHex ''0x''
          then (Inl (Errorf ''invalid metadata format: missing 0x prefix'' []), w)
          else (Inr metadataHex, w)))"

function fetchMetadata_loop ::
  "env \<Rightarrow> 's CBCInitializer \<Rightarrow> int \<Rightarrow> error option \<Rightarrow> 's world \<Rightarrow> (error + string) \<times> 's world" where
  "fetchMetadata_loop env c i lastErr w0 =
     (if i < retries c then
        (let w = retry_pause ''Retry %d/%d: Fetching metadata...'' c i w0
         in case fetchMetadata_attempt env c w of
              (Inl err, w') \<Rightarrow> fetchMetadata_loop env c (i + 1) (Some err) w'
            | (Inr metadataHex, w') \<Rightarrow> (Inr metadataHex, w'))
      else (Inl (Errorf ''failed after %d retries: %w'' [AInt (retries c), err_arg lastErr]), w0))"
  by pat_completeness auto
termination
  by (relation "measure (\<lambda>(env, c, i, lastErr, w). nat (retries c - i))") auto

declare fetchMetadata_loop.simps [simp del]

definition fetchMetadata ::
  "env \<Rightarrow> 's CBCInitializer \<Rightarrow> 's world \<Rightarrow> (error + string) \<times> 's world" where
  "fetchMetadata env c w = fetchMetadata_loop env c 0 None w"

definition version_request :: RPCRequest where
  "version_request =
     \<lparr>req_ID = 1, req_JSONRPC = ''2.0'', req_Method = ''state_getRuntimeVersion'',
      req_Params = []\<rparr>"

definition fetchRuntimeVersion_attempt ::
  "env \<Rightarrow> 's CBCInitializer \<Rightarrow> 's world \<Rightarrow> (error + RuntimeVersion) \<times> 's world" where
  \<comment> \<open>one pass through the loop body of \<open>fetchRuntimeVersion\<close> after the pause\<close>
  "fetchRuntimeVersion_attempt env c w0 =
     (case makeRPCCall env c version_request w0 of
        (Inl err, w) \<Rightarrow> (Inl err, w)
      | (Inr resp, w) \<Rightarrow>
      (case json_Unmarshal_RuntimeVersion env (resp_Result resp) of
        Inl err \<Rightarrow> (Inl (Errorf ''failed to unmarshal runtime version: %w'' [AErr err]), w)
      | Inr version \<Rightarrow> (Inr version, w)))"

function fetchRuntimeVersion_loop ::
  "env \<Rightarrow> 's CBCInitializer \<Rightarrow> int \<Rightarrow> error option \<Rightarrow> 's world
     \<Rightarrow> (error + RuntimeVersion) \<times> 's world" where
  "fetchRuntimeVersion_loop env c i lastErr w0 =
     (if i < retries c then
        (let w = retry_pause ''Retry %d/%d: Fetching runtime version...'' c i w0
         in case fetchRuntimeVersion_attempt env c w of
              (Inl err, w') \<Rightarrow> fetchRuntimeVersion_loop env c (i + 1) (Some err) w'
            | (Inr version, w') \<Rightarrow> (Inr version, w'))
      else (Inl (Errorf ''failed after %d retries: %w'' [AInt (retries c), err_arg lastErr]), w0))"
  by pat_completeness auto
termination
  by (relation "measure (\<lambda>(env, c, i, lastErr, w). nat (retries c - i))") auto

declare fetchRuntimeVersion_loop.simps [simp del]

definition fetchRuntimeVersion ::
  "env \<Rightarrow> 's CBCInitializer \<Rightarrow> 's world \<Rightarrow> (error + RuntimeVersion) \<times> 's world" where
  "fetchRuntimeVersion env c w = fetchRuntimeVersion_loop env c 0 None w"

subsection \<open>Persisting and verifying\<close>

definition CBC_modules :: string where
  "CBC_modules = ''System|Timestamp|Balances|TransactionPayment|Sudo|PalletCbcPoi|PalletCbcPos|Dcf''"

definition insertRuntimeVersion ::
  "'s CBCInitializer \<Rightarrow> RuntimeVersion \<Rightarrow> string \<Rightarrow> 's world \<Rightarrow> error option \<times> 's world" where
  \<comment> \<open>\<open>recent\<close> is a pointer: \<open>None\<close> is \<open>nil\<close>, and \<open>the recent\<close> is read only behind the
      test against \<open>nil\<close>, as in the source. The context argument of
      \<open>CreateRuntimeVersion\<close> is left out.\<close>
  "insertRuntimeVersion c version metadataHex w0 =
     (let w = Logger_Info ''Inserting runtime version %d into database...''
                [AInt (SpecVersion version)] w0;
          modules = CBC_modules;
          recent = RuntimeVersionRecent (dao c) (store w)
      in if recent \<noteq> None \<and> RecSpecVersion (the recent) = SpecVersion version
            \<and> length (RawData (the recent)) > 100
         then
           (None,
            Logger_Info
              ''Runtime version %d already exists with %d bytes of metadata - skipping insert''
              [AInt (SpecVersion version), AInt (int (length (RawData (the recent))))] w)
         else
      (let (created, s1) =
             CreateRuntimeVersion (dao c) (SpecName version) (SpecVersion version) 0 (store w);
           w = emit (DaoCreate (SpecName version) (SpecVersion version) 0) (w\<lparr>store := s1\<rparr>);
           w = Logger_Info ''CreateRuntimeVersion returned: %v'' [AInt created] w;
           (affected, s2) =
             SetRuntimeData (dao c) (SpecVersion version) modules metadataHex (store w);
           w = emit (DaoSet (SpecVersion version) modules metadataHex) (w\<lparr>store := s2\<rparr>);
           w = Logger_Info ''SetRuntimeData affected %d rows'' [AInt affected] w;
           recent = RuntimeVersionRecent (dao c) (store w)
       in if recent = None \<or> RecSpecVersion (the recent) \<noteq> SpecVersion version
             \<or> length (RawData (the recent)) < 100
          then
            (Some (Errorf
               ''failed to verify runtime data after insert - metadata not found in database'' []),
             w)
          else
            (None,
             Logger_Info
               ''Runtime version %d inserted/updated successfully with %d bytes of metadata''
               [AInt (SpecVersion version), AInt (int (length (RawData (the recent))))] w)))"

subsection \<open>Initialize\<close>

definition Initialize_bootstrap ::
  "env \<Rightarrow> 's CBCInitializer \<Rightarrow> 's world \<Rightarrow> error option \<times> 's world" where
  \<comment> \<open>\<open>Initialize\<close> from the line after the test of the stored record\<close>
  "Initialize_bootstrap env c w0 =
     (let w = Logger_Info ''Runtime versions table is empty or incomplete, bootstrapping...'' [] w0
      in case fetchRuntimeVersion env c w of
           (Inl err, w) \<Rightarrow> (Some (Errorf ''failed to fetch runtime version: %w'' [AErr err]), w)
         | (Inr runtimeVersion, w) \<Rightarrow>
      (let w = Logger_Info ''Fetched runtime version: %s v%d''
                 [AStr (SpecName runtimeVersion), AInt (SpecVersion runtimeVersion)] w
       in case fetchMetadata env c w of
            (Inl err, w) \<Rightarrow> (Some (Errorf ''failed to fetch metadata: %w'' [AErr err]), w)
          | (Inr metadataHex, w) \<Rightarrow>
      (let w = Logger_Info ''Fetched metadata: %d bytes'' [AInt (int (length metadataHex))] w
       in case insertRuntimeVersion c runtimeVersion metadataHex w of
            (Some err, w) \<Rightarrow> (Some (Errorf ''failed to insert runtime version: %w'' [AErr err]), w)
          | (None, w) \<Rightarrow>
              (None,
               Logger_Info ''CBC Chain initialization completed successfully'' []
                 (emit (MetadataLatest (SpecVersion runtimeVersion) metadataHex) w)))))"

definition has_usable_metadata :: "model_RuntimeVersion option \<Rightarrow> bool" where
  \<comment> \<open>the test of \<open>Initialize\<close> on the stored record:
      \<open>recent != nil && strings.HasPrefix(recent.RawData, "0x")\<close>\<close>
  "has_usable_metadata recent = (recent \<noteq> None \<and> HasPrefix (RawData (the recent)) ''0x'')"

definition Initialize ::
  "env \<Rightarrow> 's CBCInitializer \<Rightarrow> 's world \<Rightarrow> error option \<times> 's world" where
  \<comment> \<open>the result is Go's \<open>error\<close>: \<open>None\<close> is \<open>nil\<close>\<close>
  "Initialize env c w0 =
     (let w = Logger_Info ''Starting CBC Chain initialization...'' [] w0;
          recent = RuntimeVersionRecent (dao c) (store w)
      in if has_usable_metadata recent
         then
           (None,
            Logger_Info ''Runtime version already exists (spec: %d), skipping bootstrap''
              [AInt (RecSpecVersion (the recent))] w)
         else Initialize_bootstrap env c w)"

subsection \<open>VerifyDCFFinality\<close>

definition finalized_head_request :: RPCRequest where
  "finalized_head_request =
     \<lparr>req_ID = 1, req_JSONRPC = ''2.0'', req_Method = ''chain_getFinalizedHead'',
      req_Params = []\<rparr>"

definition block_request :: "string \<Rightarrow> RPCRequest" where
  "block_request finalizedHash =
     \<lparr>req_ID = 2, req_JSONRPC = ''2.0'', req_Method = ''chain_getBlock'',
      req_Params = [finalizedHash]\<rparr>"

definition VerifyDCFFinality ::
  "env \<Rightarrow> 's CBCInitializer \<Rightarrow> 's world \<Rightarrow> error option \<times> 's world" where
  "VerifyDCFFinality env c w0 =
     (let w = Logger_Info ''Verifying DCF finality integration...'' [] w0
      in case makeRPCCall env c finalized_head_request w of
           (Inl err, w) \<Rightarrow> (Some (Errorf ''failed to get finalized head: %w'' [AErr err]), w)
         | (Inr resp, w) \<Rightarrow>
      (case json_Unmarshal_string env (resp_Result resp) of
           Inl err \<Rightarrow> (Some (Errorf ''failed to unmarshal finalized hash: %w'' [AErr err]), w)
         | Inr finalizedHash \<Rightarrow>
      (case makeRPCCall env c (block_request finalizedHash) w of
           (Inl err, w) \<Rightarrow> (Some (Errorf ''failed to get finalized block: %w'' [AErr err]), w)
         | (Inr resp, w) \<Rightarrow>
      (case json_Unmarshal_map env (resp_Result resp) of
           Some err \<Rightarrow> (Some (Errorf ''failed to unmarshal block data: %w'' [AErr err]), w)
         | None \<Rightarrow>
      (let w = Logger_Info ''Finalized block hash: %s'' [AStr finalizedHash] w
       in if finalizedHash = ''0x''
             \<or> HasSuffix finalizedHash
                  ''000000000000000000000000000000000000000000000000000000000000''
          then
            (None,
             Logger_Warning
               ''This is expected if the chain just started. If blocks are being produced but not finalized, check the finality sync task in cbc-node/src/service.rs''
               []
               (Logger_Warning
                  ''WARNING: Finalized head appears to be genesis block - DCF finality may not be syncing properly''
                  [] w))
          else (None, Logger_Info ''DCF finality verification passed'' [] w))))))"

section \<open>internal/cbc: convertWSToHTTP\<close>

definition convertWSToHTTP :: "string \<Rightarrow> string" where
  "convertWSToHTTP wsEndpoint =
     (let httpEndpoint = wsEndpoint in
      if length httpEndpoint > 5 \<and> take 5 httpEndpoint = ''ws://''
        then ''http://'' @ drop 5 httpEndpoint
      else if length httpEndpoint > 6 \<and> take 6 httpEndpoint = ''wss://''
        then ''https://'' @ drop 6 httpEndpoint
      else httpEndpoint)"

section \<open>internal/service/service.go\<close>

record util_config =
  NetworkNode :: string  \<comment> \<open>\<open>util.NetworkNode\<close>\<close>
  WSEndPoint :: string   \<comment> \<open>\<open>util.WSEndPoint\<close>\<close>

definition initCBCChain ::
  "env \<Rightarrow> 's IDao \<Rightarrow> util_config \<Rightarrow> 's world \<Rightarrow> error option \<times> 's world" where
  "initCBCChain env d util w0 =
     (let w = Logger_Info ''Initializing CBC Chain specific components...'' [] w0;
          networkName = ToLower (NetworkNode util)
      in if networkName \<noteq> ''cbc'' \<and> networkName \<noteq> ''cbc-chain''
            \<and> \<not> Contains networkName ''cbc''
         then
           (Some (Errorf ''not a CBC network'' []),
            Logger_Info ''Not a CBC Chain network (network: %s), skipping CBC initialization''
              [AStr (NetworkNode util)] w)
         else
      (let w = Logger_Info ''Detected CBC Chain network: %s'' [AStr (NetworkNode util)] w;
           cbcInit = NewCBCInitializer d (WSEndPoint util)
       in case Initialize env cbcInit w of
            (Some err, w) \<Rightarrow> (Some (Errorf ''CBC initialization failed: %w'' [AErr err]), w)
          | (None, w) \<Rightarrow>
      (let w = (case VerifyDCFFinality env cbcInit w of
                  (Some err, w) \<Rightarrow>
                    Logger_Warning ''DCF finality verification warning: %v'' [AErr err] w
                | (None, w) \<Rightarrow> w)
       in (None, Logger_Info ''CBC Chain initialization completed successfully'' [] w))))"

definition New :: "env \<Rightarrow> 's IDao \<Rightarrow> util_config \<Rightarrow> 's world \<Rightarrow> 's world" where
  \<comment> \<open>the choice \<open>New\<close> makes after \<open>initCBCChain\<close>. The two routines it goes on with are
      calls of the generic explorer and are recorded as events; \<open>websocket.SetEndpoint\<close>,
      \<open>dao.New\<close>, \<open>unknownToken\<close> and \<open>pluginRegister\<close> are left out.\<close>
  "New env d util w0 =
     (case initCBCChain env d util w0 of
        (Some err, w) \<Rightarrow>
          emit (Invoke ''initSubRuntimeLatest'')
            (Logger_Warning ''CBC initialization warning: %v'' [AErr err] w)
      | (None, w) \<Rightarrow> emit (Invoke ''initSubRuntimeLatestWithoutFetch'') w)"


section \<open>Concrete collaborators\<close>

text \<open>
  Instances of the parameters, to run the model on concrete inputs: a store that keeps one
  row, a store that drops every write, and a node whose answer to a request is given by a
  function of the events so far and of the method.
\<close>

definition new_row :: "string \<Rightarrow> int \<Rightarrow> int \<Rightarrow> model_RuntimeVersion" where
  "new_row name specVersion blockNum =
     \<lparr>Name = name, RecSpecVersion = specVersion, Modules = [], RawData = [],
      BlockNum = blockNum\<rparr>"

definition memory_dao :: "model_RuntimeVersion option IDao" where
  "memory_dao =
     \<lparr>RuntimeVersionRecent = (\<lambda>s. s),
      CreateRuntimeVersion = (\<lambda>name specVersion blockNum s.
        case s of
          None \<Rightarrow> (1, Some (new_row name specVersion blockNum))
        | Some r \<Rightarrow>
            if RecSpecVersion r = specVersion then (0, Some r)
            else (1, Some (new_row name specVersion blockNum))),
      SetRuntimeData = (\<lambda>specVersion modules rawData s.
        case s of
          None \<Rightarrow> (0, None)
        | Some r \<Rightarrow>
            if RecSpecVersion r = specVersion
            then (1, Some (r\<lparr>Modules := modules, RawData := rawData\<rparr>))
            else (0, Some r))\<rparr>"

definition dropping_dao :: "model_RuntimeVersion option IDao" where
  "dropping_dao =
     \<lparr>RuntimeVersionRecent = (\<lambda>s. s),
      CreateRuntimeVersion = (\<lambda>name specVersion blockNum s. (0, s)),
      SetRuntimeData = (\<lambda>specVersion modules rawData s. (0, s))\<rparr>"

definition test_version :: "string \<Rightarrow> RuntimeVersion" where
  "test_version raw =
     \<lparr>SpecName = raw, ImplName = raw, AuthoringVersion = 1, SpecVersion = 100,
      ImplVersion = 1, TransactionVersion = 1, StateVersion = 1\<rparr>"

definition test_env :: "(event list \<Rightarrow> string \<Rightarrow> error + string) \<Rightarrow> env" where
  \<comment> \<open>the request body stands for the method; the answer is the result payload\<close>
  "test_env node =
     \<lparr>json_Marshal = (\<lambda>req. Inr (req_Method req)),
      http_NewRequest = (\<lambda>method url body. None),
      client_Do = (\<lambda>history url body.
        case node history body of
          Inl err \<Rightarrow> Inl err
        | Inr result \<Rightarrow> Inr \<lparr>StatusCode = 200, Body = Inr result\<rparr>),
      json_Unmarshal_RPCResponse = (\<lambda>body.
        Inr \<lparr>resp_ID = 1, resp_JSONRPC = ''2.0'', resp_Result = body, resp_Error = None\<rparr>),
      json_Unmarshal_string = (\<lambda>raw. Inr raw),
      json_Unmarshal_RuntimeVersion = (\<lambda>raw. Inr (test_version raw)),
      json_Unmarshal_map = (\<lambda>raw. None)\<rparr>"

definition unreachable_node :: "event list \<Rightarrow> string \<Rightarrow> error + string" where
  "unreachable_node history method = Inl (Errorf ''connection refused'' [])"

definition empty_world :: "model_RuntimeVersion option world" where
  "empty_world = \<lparr>store = None, trace = []\<rparr>"

definition stored_row :: "string \<Rightarrow> model_RuntimeVersion" where
  "stored_row raw =
     \<lparr>Name = ''cbc-chain'', RecSpecVersion = 100, Modules = CBC_modules, RawData = raw,
      BlockNum = 0\<rparr>"

definition test_initializer :: "model_RuntimeVersion option CBCInitializer" where
  "test_initializer = NewCBCInitializer memory_dao ''ws://localhost:9944''"

definition answering_node :: "string \<Rightarrow> event list \<Rightarrow> string \<Rightarrow> error + string" where
  "answering_node answer history method = Inr answer"

definition version_only_node :: "event list \<Rightarrow> string \<Rightarrow> error + string" where
  "version_only_node history method =
     (if method = ''state_getRuntimeVersion'' then Inr ''cbc-chain''
      else Inl (Errorf ''connection refused'' []))"

definition test_util :: "string \<Rightarrow> util_config" where
  "test_util name = \<lparr>NetworkNode = name, WSEndPoint = ''ws://localhost:9944''\<rparr>"

definition head_only_node :: "event list \<Rightarrow> string \<Rightarrow> error + string" where
  "head_only_node history method =
     (if method = ''chain_getFinalizedHead'' then Inr ''0x3b8f''
      else Inl (Errorf ''connection refused'' []))"

section \<open>Spec-side notions\<close>

definition contains_cbc_ignoring_case :: "string \<Rightarrow> bool" where
  \<comment> \<open>the identifier contains the target substring \<open>cbc\<close>, compared case-insensitively\<close>
  "contains_cbc_ignoring_case s =
     (\<exists>pre x y z post. s = pre @ [x, y, z] @ post
        \<and> (x = CHR ''c'' \<or> x = CHR ''C'') \<and> (y = CHR ''b'' \<or> y = CHR ''B'')
        \<and> (z = CHR ''c'' \<or> z = CHR ''C''))"

definition spec_valid_record :: "model_RuntimeVersion \<Rightarrow> bool" where
  \<comment> \<open>the invariant of the data model in the specification's words: \<open>rawMetadata\<close> is
      non-empty, begins with \<open>0x\<close>, and its length exceeds 100 characters\<close>
  "spec_valid_record r =
     (RawData r \<noteq> [] \<and> HasPrefix (RawData r) ''0x'' \<and> length (RawData r) > 100)"

definition all_zero_hash :: string where
  \<comment> \<open>the all-zero pattern of 64 hex digits, written as the node writes a hash\<close>
  "all_zero_hash = ''0x'' @ replicate 64 (CHR ''0'')"

definition is_hex_digit :: "char \<Rightarrow> bool" where
  "is_hex_digit ch = (ch \<in> set ''0123456789abcdefABCDEF'')"

definition well_formed_hash :: "string \<Rightarrow> bool" where
  \<comment> \<open>\<open>0x\<close> followed by 64 hex digits\<close>
  "well_formed_hash h =
     (take 2 h = ''0x'' \<and> length h = 66 \<and> list_all is_hex_digit (drop 2 h))"

section \<open>Facts about the string functions\<close>

lemma HasPrefix_iff_append: "HasPrefix s p \<longleftrightarrow> (\<exists>r. s = p @ r)"
proof
  assume "HasPrefix s p"
  then have "s = p @ drop (length p) s"
    by (metis HasPrefix_def append_take_drop_id)
  then show "\<exists>r. s = p @ r" ..
next
  assume "\<exists>r. s = p @ r"
  then show "HasPrefix s p" by (auto simp: HasPrefix_def)
qed

lemma Contains_iff_append: "Contains s p \<longleftrightarrow> (\<exists>pre post. s = pre @ p @ post)"
proof (induction s)
  case Nil
  then show ?case by auto
next
  case (Cons a s)
  show ?case
  proof
    assume "Contains (a # s) p"
    then consider "HasPrefix (a # s) p" | "Contains s p" by auto
    then show "\<exists>pre post. a # s = pre @ p @ post"
    proof cases
      case 1
      then obtain r where "a # s = p @ r" by (auto simp: HasPrefix_iff_append)
      then have "a # s = [] @ p @ r" by simp
      then show ?thesis by blast
    next
      case 2
      then obtain pre post where "s = pre @ p @ post" using Cons.IH by auto
      then have "a # s = (a # pre) @ p @ post" by simp
      then show ?thesis by blast
    qed
  next
    assume "\<exists>pre post. a # s = pre @ p @ post"
    then obtain pre post where e: "a # s = pre @ p @ post" by auto
    show "Contains (a # s) p"
    proof (cases pre)
      case Nil
      then have "HasPrefix (a # s) p" using e by (auto simp: HasPrefix_iff_append)
      then show ?thesis by simp
    next
      case (Cons b pre')
      then have "s = pre' @ p @ post" using e by simp
      then have "Contains s p" using Cons.IH by blast
      then show ?thesis by simp
    qed
  qed
qed

lemma lower_char_c: "lower_char x = CHR ''c'' \<longleftrightarrow> x = CHR ''c'' \<or> x = CHR ''C''"
proof -
  have a: "x = CHR ''C'' \<longleftrightarrow> (of_char x :: nat) = 67"
    using of_char_eq_iff[of x "CHR ''C''", where ?'a = nat] by simp
  have b: "x = CHR ''c'' \<longleftrightarrow> (of_char x :: nat) = 99"
    using of_char_eq_iff[of x "CHR ''c''", where ?'a = nat] by simp
  have c: "char_of (n + 32) = CHR ''c'' \<longleftrightarrow> n = 67" if "65 \<le> n" "n \<le> 90" for n :: nat
    using that by (auto simp: char_of_eq_iff take_bit_eq_mod)
  show ?thesis
    by (auto simp: lower_char_def Let_def c a b)
qed

lemma lower_char_b: "lower_char x = CHR ''b'' \<longleftrightarrow> x = CHR ''b'' \<or> x = CHR ''B''"
proof -
  have a: "x = CHR ''B'' \<longleftrightarrow> (of_char x :: nat) = 66"
    using of_char_eq_iff[of x "CHR ''B''", where ?'a = nat] by simp
  have b: "x = CHR ''b'' \<longleftrightarrow> (of_char x :: nat) = 98"
    using of_char_eq_iff[of x "CHR ''b''", where ?'a = nat] by simp
  have c: "char_of (n + 32) = CHR ''b'' \<longleftrightarrow> n = 66" if "65 \<le> n" "n \<le> 90" for n :: nat
    using that by (auto simp: char_of_eq_iff take_bit_eq_mod)
  show ?thesis
    by (auto simp: lower_char_def Let_def c a b)
qed

lemma Contains_ToLower_cbc:
  "Contains (ToLower s) ''cbc'' \<longleftrightarrow>
     (\<exists>pre x y z post. s = pre @ [x, y, z] @ post
        \<and> (x = CHR ''c'' \<or> x = CHR ''C'') \<and> (y = CHR ''b'' \<or> y = CHR ''B'')
        \<and> (z = CHR ''c'' \<or> z = CHR ''C''))"
proof
  assume "Contains (ToLower s) ''cbc''"
  then obtain pre post where "map lower_char s = pre @ ''cbc'' @ post"
    by (auto simp: Contains_iff_append ToLower_def)
  then obtain pre' m where s: "s = pre' @ m" and m: "map lower_char m = ''cbc'' @ post"
    by (auto simp: map_eq_append_conv)
  from m obtain x y z post' where m': "m = x # y # z # post'"
    and l: "lower_char x = CHR ''c''" "lower_char y = CHR ''b''" "lower_char z = CHR ''c''"
    by (auto simp: map_eq_Cons_conv)
  have "s = pre' @ [x, y, z] @ post'" using s m' by simp
  moreover have "x = CHR ''c'' \<or> x = CHR ''C''" using l(1) by (simp only: lower_char_c)
  moreover have "y = CHR ''b'' \<or> y = CHR ''B''" using l(2) by (simp only: lower_char_b)
  moreover have "z = CHR ''c'' \<or> z = CHR ''C''" using l(3) by (simp only: lower_char_c)
  ultimately show "\<exists>pre x y z post. s = pre @ [x, y, z] @ post
        \<and> (x = CHR ''c'' \<or> x = CHR ''C'') \<and> (y = CHR ''b'' \<or> y = CHR ''B'')
        \<and> (z = CHR ''c'' \<or> z = CHR ''C'')"
    by blast
next
  assume "\<exists>pre x y z post. s = pre @ [x, y, z] @ post
        \<and> (x = CHR ''c'' \<or> x = CHR ''C'') \<and> (y = CHR ''b'' \<or> y = CHR ''B'')
        \<and> (z = CHR ''c'' \<or> z = CHR ''C'')"
  then obtain pre x y z post where s: "s = pre @ [x, y, z] @ post"
    and c: "x = CHR ''c'' \<or> x = CHR ''C''" "y = CHR ''b'' \<or> y = CHR ''B''"
      "z = CHR ''c'' \<or> z = CHR ''C''"
    by blast
  have "lower_char x = CHR ''c''" "lower_char y = CHR ''b''" "lower_char z = CHR ''c''"
    using c by (simp_all only: lower_char_c lower_char_b)
  with s
  have "map lower_char s = map lower_char pre @ ''cbc'' @ map lower_char post"
    by simp
  then show "Contains (ToLower s) ''cbc''"
    unfolding Contains_iff_append ToLower_def by blast
qed

lemma Contains_ToLower_iff: "Contains (ToLower s) ''cbc'' = contains_cbc_ignoring_case s"
  unfolding contains_cbc_ignoring_case_def by (rule Contains_ToLower_cbc)

lemma HasPrefix_append: "HasPrefix (p @ r) p"
  by (simp add: HasPrefix_def)

lemma HasPrefix_Contains: "HasPrefix s p \<Longrightarrow> Contains s p"
  by (cases s) (auto simp: HasPrefix_def)

lemma Replace1_absent: "\<not> Contains s old \<Longrightarrow> Replace1 s old new = s"
  by (induction s) auto

lemma Replace1_prefix: "Replace1 (old @ r) old new = new @ r"
proof (cases "old @ r")
  case Nil
  then show ?thesis by simp
next
  case (Cons a l)
  have "HasPrefix (a # l) old" using HasPrefix_append[of old r] Cons by simp
  then have "Replace1 (a # l) old new = new @ drop (length old) (a # l)" by simp
  also have "drop (length old) (a # l) = r" using Cons[symmetric] by simp
  finally show ?thesis using Cons by simp
qed

lemma httpURL_ws:
  assumes "\<not> Contains r ''wss://''"
  shows "httpURL (NewCBCInitializer d (''ws://'' @ r)) = ''http://'' @ r"
proof -
  have "Replace1 (''ws://'' @ r) ''ws://'' ''http://'' = ''http://'' @ r"
    by (rule Replace1_prefix)
  moreover have "Replace1 (''http://'' @ r) ''wss://'' ''https://'' = ''http://'' @ r"
    using assms by (intro Replace1_absent) (simp add: HasPrefix_def)
  ultimately show ?thesis by (simp add: NewCBCInitializer_def Let_def del: Replace1.simps)
qed

lemma httpURL_wss:
  assumes "\<not> Contains r ''ws://''"
  shows "httpURL (NewCBCInitializer d (''wss://'' @ r)) = ''https://'' @ r"
proof -
  have "Replace1 (''wss://'' @ r) ''ws://'' ''http://'' = ''wss://'' @ r"
    using assms by (intro Replace1_absent) (simp add: HasPrefix_def)
  moreover have "Replace1 (''wss://'' @ r) ''wss://'' ''https://'' = ''https://'' @ r"
    by (rule Replace1_prefix)
  ultimately show ?thesis by (simp add: NewCBCInitializer_def Let_def del: Replace1.simps)
qed

lemma httpURL_unchanged:
  assumes "\<not> Contains s ''ws://''" "\<not> Contains s ''wss://''"
  shows "httpURL (NewCBCInitializer d s) = s"
  using assms by (simp add: NewCBCInitializer_def Let_def Replace1_absent)

lemma convert_ws: "r \<noteq> [] \<Longrightarrow> convertWSToHTTP (''ws://'' @ r) = ''http://'' @ r"
  by (simp add: convertWSToHTTP_def)

lemma convert_wss: "r \<noteq> [] \<Longrightarrow> convertWSToHTTP (''wss://'' @ r) = ''https://'' @ r"
  by (simp add: convertWSToHTTP_def)

lemma HasPrefix_ws: "HasPrefix s ''ws://'' = (5 \<le> length s \<and> take 5 s = ''ws://'')"
proof -
  have l: "length ''ws://'' = 5" by simp
  show ?thesis by (simp only: HasPrefix_def l)
qed

lemma HasPrefix_wss: "HasPrefix s ''wss://'' = (6 \<le> length s \<and> take 6 s = ''wss://'')"
proof -
  have l: "length ''wss://'' = 6" by simp
  show ?thesis by (simp only: HasPrefix_def l)
qed

lemma convert_unchanged:
  assumes "\<not> HasPrefix s ''ws://''" "\<not> HasPrefix s ''wss://''"
  shows "convertWSToHTTP s = s"
  using assms unfolding HasPrefix_ws HasPrefix_wss convertWSToHTTP_def Let_def
  by auto

lemma convert_http: "convertWSToHTTP (''http://'' @ r) = ''http://'' @ r"
  by (simp add: convertWSToHTTP_def)

lemma convert_https: "convertWSToHTTP (''https://'' @ r) = ''https://'' @ r"
  by (simp add: convertWSToHTTP_def)


section \<open>Endpoint translation\<close>

text \<open>
  C8. Endpoint translation is a function of the endpoint string alone. For an endpoint
  \<open>scheme://r\<close> whose remainder \<open>r\<close> is not empty and holds no further \<open>ws://\<close> or
  \<open>wss://\<close> (every \<open>host:port\<close> is such), both \<open>NewCBCInitializer\<close> and \<open>convertWSToHTTP\<close>
  map \<open>ws://r\<close> to \<open>http://r\<close> and \<open>wss://r\<close> to \<open>https://r\<close>, and return \<open>http://r\<close> and
  \<open>https://r\<close> unchanged; the three examples of the specification come out as stated.
\<close>

theorem endpoint_translation:
  assumes "r \<noteq> []" and "\<not> Contains r ''ws://''" and "\<not> Contains r ''wss://''"
  shows "httpURL (NewCBCInitializer d (''ws://'' @ r)) = ''http://'' @ r
       \<and> httpURL (NewCBCInitializer d (''wss://'' @ r)) = ''https://'' @ r
       \<and> httpURL (NewCBCInitializer d (''http://'' @ r)) = ''http://'' @ r
       \<and> httpURL (NewCBCInitializer d (''https://'' @ r)) = ''https://'' @ r
       \<and> convertWSToHTTP (''ws://'' @ r) = ''http://'' @ r
       \<and> convertWSToHTTP (''wss://'' @ r) = ''https://'' @ r
       \<and> convertWSToHTTP (''http://'' @ r) = ''http://'' @ r
       \<and> convertWSToHTTP (''https://'' @ r) = ''https://'' @ r
       \<and> httpURL (NewCBCInitializer d ''ws://172.17.0.1:9933'') = ''http://172.17.0.1:9933''
       \<and> httpURL (NewCBCInitializer d ''wss://example.com:9944'') = ''https://example.com:9944''
       \<and> httpURL (NewCBCInitializer d ''http://localhost:9933'') = ''http://localhost:9933''
       \<and> convertWSToHTTP ''ws://172.17.0.1:9933'' = ''http://172.17.0.1:9933''
       \<and> convertWSToHTTP ''wss://example.com:9944'' = ''https://example.com:9944''
       \<and> convertWSToHTTP ''http://localhost:9933'' = ''http://localhost:9933''"
proof -
  have n1: "httpURL (NewCBCInitializer d (''ws://'' @ r)) = ''http://'' @ r"
    using assms(3) by (rule httpURL_ws)
  have n2: "httpURL (NewCBCInitializer d (''wss://'' @ r)) = ''https://'' @ r"
    using assms(2) by (rule httpURL_wss)
  have n3: "httpURL (NewCBCInitializer d (''http://'' @ r)) = ''http://'' @ r"
    using assms(2,3) by (intro httpURL_unchanged) (simp_all add: HasPrefix_def)
  have n4: "httpURL (NewCBCInitializer d (''https://'' @ r)) = ''https://'' @ r"
    using assms(2,3) by (intro httpURL_unchanged) (simp_all add: HasPrefix_def)
  have e1: "httpURL (NewCBCInitializer d ''ws://172.17.0.1:9933'') = ''http://172.17.0.1:9933''"
    by (simp add: NewCBCInitializer_def HasPrefix_def)
  have e2: "httpURL (NewCBCInitializer d ''wss://example.com:9944'') = ''https://example.com:9944''"
    by (simp add: NewCBCInitializer_def HasPrefix_def)
  have e3: "httpURL (NewCBCInitializer d ''http://localhost:9933'') = ''http://localhost:9933''"
    by (simp add: NewCBCInitializer_def HasPrefix_def)
  have e4: "convertWSToHTTP ''ws://172.17.0.1:9933'' = ''http://172.17.0.1:9933''"
    by (simp add: convertWSToHTTP_def)
  have e5: "convertWSToHTTP ''wss://example.com:9944'' = ''https://example.com:9944''"
    by (simp add: convertWSToHTTP_def)
  have e6: "convertWSToHTTP ''http://localhost:9933'' = ''http://localhost:9933''"
    by (simp add: convertWSToHTTP_def)
  show ?thesis
    using n1 n2 n3 n4 convert_ws[OF assms(1)] convert_wss[OF assms(1)]
      convert_http[of r] convert_https[of r] e1 e2 e3 e4 e5 e6
    by blast
qed

theorem endpoint_translation_witness:
  "''node.example:9944'' \<noteq> [] \<and> \<not> Contains ''node.example:9944'' ''ws://''
   \<and> \<not> Contains ''node.example:9944'' ''wss://''
   \<and> httpURL (NewCBCInitializer memory_dao ''ws://node.example:9944'') = ''http://node.example:9944''
   \<and> httpURL (NewCBCInitializer memory_dao ''wss://node.example:9944'') = ''https://node.example:9944''
   \<and> httpURL (NewCBCInitializer memory_dao ''https://node.example:9944'') = ''https://node.example:9944''
   \<and> convertWSToHTTP ''ws://node.example:9944'' = ''http://node.example:9944''
   \<and> convertWSToHTTP ''wss://node.example:9944'' = ''https://node.example:9944''
   \<and> convertWSToHTTP ''https://node.example:9944'' = ''https://node.example:9944''"
proof -
  have h1: "''node.example:9944'' \<noteq> []" by simp
  have h2: "\<not> Contains ''node.example:9944'' ''ws://''" by (simp add: HasPrefix_def)
  have h3: "\<not> Contains ''node.example:9944'' ''wss://''" by (simp add: HasPrefix_def)
  show ?thesis
    using h1 h2 h3 endpoint_translation [OF h1 h2 h3, of memory_dao] by simp
qed

text \<open>
  C9 (as stated: the two conversions give the same result on every input string). They
  do not: on the bare scheme \<open>ws://\<close> the replacement in \<open>NewCBCInitializer\<close> applies,
  while \<open>convertWSToHTTP\<close> asks for more than five characters and leaves the string.
\<close>

theorem endpoint_conversions_differ:
  "httpURL (NewCBCInitializer memory_dao ''ws://'') = ''http://''
   \<and> convertWSToHTTP ''ws://'' = ''ws://''
   \<and> httpURL (NewCBCInitializer memory_dao ''ws://'') \<noteq> convertWSToHTTP ''ws://''"
  by (simp add: NewCBCInitializer_def HasPrefix_def convertWSToHTTP_def)

text \<open>
  C9 (amended). The two conversions agree on every string \<open>r\<close> that contains neither
  \<open>ws://\<close> nor \<open>wss://\<close> (both return it unchanged), and, when \<open>r\<close> is moreover not empty,
  on \<open>ws://r\<close> and on \<open>wss://r\<close>.
\<close>

theorem endpoint_conversions_agree:
  assumes "\<not> Contains r ''ws://''" and "\<not> Contains r ''wss://''"
  shows "httpURL (NewCBCInitializer d r) = convertWSToHTTP r
       \<and> (r \<noteq> [] \<longrightarrow>
            httpURL (NewCBCInitializer d (''ws://'' @ r)) = convertWSToHTTP (''ws://'' @ r)
          \<and> httpURL (NewCBCInitializer d (''wss://'' @ r)) = convertWSToHTTP (''wss://'' @ r))"
proof -
  have p: "\<not> HasPrefix r ''ws://''" "\<not> HasPrefix r ''wss://''"
    using assms HasPrefix_Contains by blast+
  have "httpURL (NewCBCInitializer d r) = r"
    using assms by (rule httpURL_unchanged)
  then have a: "httpURL (NewCBCInitializer d r) = convertWSToHTTP r"
    using convert_unchanged[OF p] by simp
  have b: "httpURL (NewCBCInitializer d (''ws://'' @ r)) = convertWSToHTTP (''ws://'' @ r)"
    if "r \<noteq> []"
    using httpURL_ws[OF assms(2), of d] convert_ws[OF that] by simp
  have c: "httpURL (NewCBCInitializer d (''wss://'' @ r)) = convertWSToHTTP (''wss://'' @ r)"
    if "r \<noteq> []"
    using httpURL_wss[OF assms(1), of d] convert_wss[OF that] by simp
  show ?thesis using a b c by blast
qed

theorem endpoint_conversions_agree_witness:
  "\<not> Contains ''example.com:9944'' ''ws://'' \<and> \<not> Contains ''example.com:9944'' ''wss://''
   \<and> ''example.com:9944'' \<noteq> []
   \<and> httpURL (NewCBCInitializer memory_dao ''example.com:9944'')
       = convertWSToHTTP ''example.com:9944''
   \<and> httpURL (NewCBCInitializer memory_dao ''ws://example.com:9944'')
       = convertWSToHTTP ''ws://example.com:9944''
   \<and> httpURL (NewCBCInitializer memory_dao ''wss://example.com:9944'')
       = convertWSToHTTP ''wss://example.com:9944''"
proof -
  have h1: "\<not> Contains ''example.com:9944'' ''ws://''" by (simp add: HasPrefix_def)
  have h2: "\<not> Contains ''example.com:9944'' ''wss://''" by (simp add: HasPrefix_def)
  show ?thesis
    using h1 h2 endpoint_conversions_agree [OF h1 h2, of memory_dao] by simp
qed


section \<open>Facts about the RPC client and the retry loops\<close>

lemma trace_emit: "trace (emit e w) = trace w @ [e]"
  by (simp add: emit_def)

lemma store_emit: "store (emit e w) = store w"
  by (simp add: emit_def)

lemma makeRPCCall_world: "snd (makeRPCCall env c req w) = emit (RPCCall req) w"
  by (simp add: makeRPCCall_def Let_def split: sum.splits option.splits)

lemma fetchMetadata_attempt_world:
  "snd (fetchMetadata_attempt env c w) = emit (RPCCall metadata_request) w"
proof -
  obtain r w' where m: "makeRPCCall env c metadata_request w = (r, w')"
    by (cases "makeRPCCall env c metadata_request w")
  then have "w' = emit (RPCCall metadata_request) w"
    using makeRPCCall_world[of env c metadata_request w] by simp
  then show ?thesis
    by (simp add: fetchMetadata_attempt_def m split: sum.splits)
qed

lemma fetchRuntimeVersion_attempt_world:
  "snd (fetchRuntimeVersion_attempt env c w) = emit (RPCCall version_request) w"
proof -
  obtain r w' where m: "makeRPCCall env c version_request w = (r, w')"
    by (cases "makeRPCCall env c version_request w")
  then have "w' = emit (RPCCall version_request) w"
    using makeRPCCall_world[of env c version_request w] by simp
  then show ?thesis
    by (simp add: fetchRuntimeVersion_attempt_def m split: sum.splits)
qed

lemma fetchMetadata_attempt_prefix:
  "fetchMetadata_attempt env c w = (Inr metadataHex, w') \<Longrightarrow> HasPrefix metadataHex ''0x''"
  by (auto simp: fetchMetadata_attempt_def split: prod.splits sum.splits if_splits)

lemma fetchMetadata_loop_prefix:
  "fetchMetadata_loop env c i lastErr w = (Inr metadataHex, w') \<Longrightarrow> HasPrefix metadataHex ''0x''"
proof (induction env c i lastErr w rule: fetchMetadata_loop.induct)
  case (1 env c i lastErr w0)
  show ?case
  proof (cases "i < retries c")
    case False
    then show ?thesis using "1.prems" by (simp add: fetchMetadata_loop.simps)
  next
    case True
    obtain r w1 where a: "fetchMetadata_attempt env c
        (retry_pause ''Retry %d/%d: Fetching metadata...'' c i w0) = (r, w1)"
      by (cases "fetchMetadata_attempt env c
        (retry_pause ''Retry %d/%d: Fetching metadata...'' c i w0)")
    show ?thesis
    proof (cases r)
      case (Inl err)
      then have "fetchMetadata_loop env c (i + 1) (Some err) w1 = (Inr metadataHex, w')"
        using "1.prems" True a by (simp add: fetchMetadata_loop.simps[of env c i])
      then show ?thesis using "1.IH"[OF True refl a[symmetric, unfolded Inl]] Inl
        by simp
    next
      case (Inr s)
      then have "s = metadataHex"
        using "1.prems" True a by (simp add: fetchMetadata_loop.simps[of env c i])
      then show ?thesis using a Inr fetchMetadata_attempt_prefix by blast
    qed
  qed
qed


lemma prefix_emit: "prefix (trace w) (trace (emit e w))"
  by (simp add: emit_def)

lemma retry_pause_0: "retry_pause format c 0 w = w"
  by (simp add: retry_pause_def)

lemma trace_retry_pause:
  "trace (retry_pause format c i w) =
     trace w @ (if i > 0 then [Log Warning format [AInt i, AInt (retries c)], Sleep (retryWait c)]
                else [])"
  by (simp add: retry_pause_def time_Sleep_def Logger_Warning_def trace_emit)

lemma store_retry_pause: "store (retry_pause format c i w) = store w"
  by (simp add: retry_pause_def time_Sleep_def Logger_Warning_def store_emit)

lemma fetchMetadata_loop_extends:
  "prefix (trace w) (trace (snd (fetchMetadata_loop env c i lastErr w)))
   \<and> store (snd (fetchMetadata_loop env c i lastErr w)) = store w"
proof (induction env c i lastErr w rule: fetchMetadata_loop.induct)
  case (1 env c i lastErr w0)
  show ?case
  proof (cases "i < retries c")
    case False
    then show ?thesis by (simp add: fetchMetadata_loop.simps[of env c i])
  next
    case True
    let ?p = "retry_pause ''Retry %d/%d: Fetching metadata...'' c i w0"
    obtain r w1 where a: "fetchMetadata_attempt env c ?p = (r, w1)"
      by (cases "fetchMetadata_attempt env c ?p")
    have w1: "w1 = emit (RPCCall metadata_request) ?p"
      using fetchMetadata_attempt_world[of env c ?p] a by simp
    have p1: "prefix (trace w0) (trace w1)" and s1: "store w1 = store w0"
      by (simp_all add: w1 trace_emit store_emit trace_retry_pause store_retry_pause)
    show ?thesis
    proof (cases r)
      case (Inl err)
      have e: "fetchMetadata_loop env c i lastErr w0 = fetchMetadata_loop env c (i + 1) (Some err) w1"
        using True a Inl by (simp add: fetchMetadata_loop.simps[of env c i])
      show ?thesis
        using "1.IH"[OF True refl a[symmetric, unfolded Inl]] p1 s1
        unfolding e by (auto intro: prefix_order.trans)
    next
      case (Inr s)
      have "fetchMetadata_loop env c i lastErr w0 = (Inr s, w1)"
        using True a Inr by (simp add: fetchMetadata_loop.simps[of env c i])
      then show ?thesis using p1 s1 by simp
    qed
  qed
qed

lemma fetchRuntimeVersion_loop_extends:
  "prefix (trace w) (trace (snd (fetchRuntimeVersion_loop env c i lastErr w)))
   \<and> store (snd (fetchRuntimeVersion_loop env c i lastErr w)) = store w"
proof (induction env c i lastErr w rule: fetchRuntimeVersion_loop.induct)
  case (1 env c i lastErr w0)
  show ?case
  proof (cases "i < retries c")
    case False
    then show ?thesis by (simp add: fetchRuntimeVersion_loop.simps[of env c i])
  next
    case True
    let ?p = "retry_pause ''Retry %d/%d: Fetching runtime version...'' c i w0"
    obtain r w1 where a: "fetchRuntimeVersion_attempt env c ?p = (r, w1)"
      by (cases "fetchRuntimeVersion_attempt env c ?p")
    have w1: "w1 = emit (RPCCall version_request) ?p"
      using fetchRuntimeVersion_attempt_world[of env c ?p] a by simp
    have p1: "prefix (trace w0) (trace w1)" and s1: "store w1 = store w0"
      by (simp_all add: w1 trace_emit store_emit trace_retry_pause store_retry_pause)
    show ?thesis
    proof (cases r)
      case (Inl err)
      have e: "fetchRuntimeVersion_loop env c i lastErr w0
                 = fetchRuntimeVersion_loop env c (i + 1) (Some err) w1"
        using True a Inl by (simp add: fetchRuntimeVersion_loop.simps[of env c i])
      show ?thesis
        using "1.IH"[OF True refl a[symmetric, unfolded Inl]] p1 s1
        unfolding e by (auto intro: prefix_order.trans)
    next
      case (Inr s)
      have "fetchRuntimeVersion_loop env c i lastErr w0 = (Inr s, w1)"
        using True a Inr by (simp add: fetchRuntimeVersion_loop.simps[of env c i])
      then show ?thesis using p1 s1 by simp
    qed
  qed
qed

lemma fetchRuntimeVersion_first_call:
  assumes "0 < retries c"
  shows "prefix (trace w @ [RPCCall version_request]) (trace (snd (fetchRuntimeVersion env c w)))"
proof -
  obtain r w1 where a: "fetchRuntimeVersion_attempt env c w = (r, w1)"
    by (cases "fetchRuntimeVersion_attempt env c w")
  have w1: "trace w1 = trace w @ [RPCCall version_request]"
    using fetchRuntimeVersion_attempt_world[of env c w] a by (simp add: trace_emit)
  show ?thesis
  proof (cases r)
    case (Inl err)
    have "fetchRuntimeVersion env c w = fetchRuntimeVersion_loop env c 1 (Some err) w1"
      using assms a Inl
      by (simp add: fetchRuntimeVersion_def fetchRuntimeVersion_loop.simps[of env c 0] retry_pause_0)
    then show ?thesis
      using fetchRuntimeVersion_loop_extends[of w1 env c 1 "Some err"] w1 by simp
  next
    case (Inr v)
    have "fetchRuntimeVersion env c w = (Inr v, w1)"
      using assms a Inr
      by (simp add: fetchRuntimeVersion_def fetchRuntimeVersion_loop.simps[of env c 0] retry_pause_0)
    then show ?thesis using w1 by simp
  qed
qed

lemma insertRuntimeVersion_extends:
  "prefix (trace w) (trace (snd (insertRuntimeVersion c version metadataHex w)))"
  by (simp add: insertRuntimeVersion_def Let_def Logger_Info_def trace_emit split: prod.splits)

lemma Initialize_bootstrap_extends:
  "prefix (trace (snd (fetchRuntimeVersion env c
       (Logger_Info ''Runtime versions table is empty or incomplete, bootstrapping...'' [] w))))
     (trace (snd (Initialize_bootstrap env c w)))"
proof -
  let ?wb = "Logger_Info ''Runtime versions table is empty or incomplete, bootstrapping...'' [] w"
  obtain r wv where v: "fetchRuntimeVersion env c ?wb = (r, wv)"
    by (cases "fetchRuntimeVersion env c ?wb")
  show ?thesis
  proof (cases r)
    case (Inl err)
    then show ?thesis using v by (simp add: Initialize_bootstrap_def)
  next
    case (Inr version)
    let ?wf = "Logger_Info ''Fetched runtime version: %s v%d''
                 [AStr (SpecName version), AInt (SpecVersion version)] wv"
    obtain r' wm where m: "fetchMetadata env c ?wf = (r', wm)"
      by (cases "fetchMetadata env c ?wf")
    have "prefix (trace ?wf) (trace wm)"
      using fetchMetadata_loop_extends[of ?wf env c 0 None] m by (simp add: fetchMetadata_def)
    moreover have "prefix (trace wv) (trace ?wf)"
      by (simp add: Logger_Info_def prefix_emit)
    ultimately have pm: "prefix (trace wv) (trace wm)"
      using prefix_order.trans by blast
    show ?thesis
    proof (cases r')
      case (Inl err)
      then show ?thesis using v Inr m pm by (simp add: Initialize_bootstrap_def)
    next
      case (Inr metadataHex)
      let ?wi = "Logger_Info ''Fetched metadata: %d bytes'' [AInt (int (length metadataHex))] wm"
      obtain r'' wx where i: "insertRuntimeVersion c version metadataHex ?wi = (r'', wx)"
        by (cases "insertRuntimeVersion c version metadataHex ?wi")
      have "prefix (trace ?wi) (trace wx)"
        using insertRuntimeVersion_extends[of ?wi c version metadataHex] i by simp
      moreover have "prefix (trace wm) (trace ?wi)"
        by (simp add: Logger_Info_def prefix_emit)
      ultimately have px: "prefix (trace wv) (trace wx)"
        using pm prefix_order.trans by blast
      let ?wl = "emit (MetadataLatest (SpecVersion version) metadataHex) wx"
      let ?we = "Logger_Info ''CBC Chain initialization completed successfully'' [] ?wl"
      have "prefix (trace wx) (trace ?wl)" by (rule prefix_emit)
      moreover have "prefix (trace ?wl) (trace ?we)" by (simp add: Logger_Info_def prefix_emit)
      ultimately have pe: "prefix (trace wv) (trace ?we)"
        using px prefix_order.trans by blast
      show ?thesis
      proof (cases r'')
        case None
        then show ?thesis
          using v \<open>r = Inr version\<close> m Inr i pe by (simp add: Initialize_bootstrap_def Let_def)
      next
        case (Some err)
        then show ?thesis
          using v \<open>r = Inr version\<close> m Inr i px by (simp add: Initialize_bootstrap_def Let_def)
      qed
    qed
  qed
qed


section \<open>The test of the stored record in Initialize\<close>

lemma has_usable_metadata_iff:
  "has_usable_metadata recent = (\<exists>r rest. recent = Some r \<and> RawData r = ''0x'' @ rest)"
  by (cases recent) (auto simp: has_usable_metadata_def HasPrefix_iff_append)

lemma Initialize_skip:
  assumes "RuntimeVersionRecent (dao c) (store w) = Some r" and "HasPrefix (RawData r) ''0x''"
  shows "Initialize env c w =
           (None, w\<lparr>trace := trace w @
              [Log Info ''Starting CBC Chain initialization...'' [],
               Log Info ''Runtime version already exists (spec: %d), skipping bootstrap''
                 [AInt (RecSpecVersion r)]]\<rparr>)"
  using assms
  by (simp add: Initialize_def Let_def Logger_Info_def emit_def has_usable_metadata_def)

lemma Initialize_bootstraps:
  assumes "\<not> has_usable_metadata (RuntimeVersionRecent (dao c) (store w))"
  shows "Initialize env c w =
           Initialize_bootstrap env c (Logger_Info ''Starting CBC Chain initialization...'' [] w)"
  using assms by (simp add: Initialize_def Let_def Logger_Info_def store_emit)

lemma Initialize_bootstrap_first_call:
  assumes "0 < retries c"
  shows "prefix (trace w @
            [Log Info ''Runtime versions table is empty or incomplete, bootstrapping...'' [],
             RPCCall version_request])
           (trace (snd (Initialize_bootstrap env c w)))"
proof -
  let ?wb = "Logger_Info ''Runtime versions table is empty or incomplete, bootstrapping...'' [] w"
  have "prefix (trace ?wb @ [RPCCall version_request]) (trace (snd (fetchRuntimeVersion env c ?wb)))"
    using assms by (rule fetchRuntimeVersion_first_call)
  then have "prefix (trace ?wb @ [RPCCall version_request])
               (trace (snd (Initialize_bootstrap env c w)))"
    using Initialize_bootstrap_extends[of env c w] prefix_order.trans by blast
  then show ?thesis by (simp add: Logger_Info_def trace_emit)
qed

text \<open>
  C1 (as stated: the test accepts a stored \<open>rawMetadata\<close> only if it is longer than 100
  characters). The test of \<open>Initialize\<close> is the prefix test alone: the two-character
  string \<open>0x\<close> is not valid in the sense of the data model, yet \<open>Initialize\<close> accepts the
  record, returns success and starts no bootstrap.
\<close>

theorem short_metadata_skips_bootstrap:
  "\<not> spec_valid_record (stored_row ''0x'')
   \<and> has_usable_metadata (Some (stored_row ''0x''))
   \<and> Initialize (test_env unreachable_node) test_initializer
        \<lparr>store = Some (stored_row ''0x''), trace = []\<rparr>
      = (None,
         \<lparr>store = Some (stored_row ''0x''),
          trace = [Log Info ''Starting CBC Chain initialization...'' [],
                   Log Info ''Runtime version already exists (spec: %d), skipping bootstrap''
                     [AInt 100]]\<rparr>)"
  by (simp add: spec_valid_record_def stored_row_def has_usable_metadata_def HasPrefix_def
      Initialize_def Let_def Logger_Info_def emit_def test_initializer_def NewCBCInitializer_def
      memory_dao_def)

text \<open>
  C1 (amended). The test accepts a stored record if and only if the record exists and
  its \<open>RawData\<close> begins with \<open>0x\<close>, whatever its length. On an accepted record
  \<open>Initialize\<close> returns success after two log lines; on every other store the
  initializer built by \<open>NewCBCInitializer\<close> starts the bootstrap: it logs that the table
  is empty or incomplete and calls \<open>state_getRuntimeVersion\<close>.
\<close>

theorem metadata_check_is_prefix_test:
  "has_usable_metadata recent = (\<exists>r rest. recent = Some r \<and> RawData r = ''0x'' @ rest)
   \<and> (RuntimeVersionRecent (dao c) (store w) = Some r \<and> has_usable_metadata (Some r) \<longrightarrow>
        Initialize env c w =
          (None,
           Logger_Info ''Runtime version already exists (spec: %d), skipping bootstrap''
             [AInt (RecSpecVersion r)]
             (Logger_Info ''Starting CBC Chain initialization...'' [] w)))
   \<and> (\<not> has_usable_metadata (RuntimeVersionRecent d (store w')) \<longrightarrow>
        prefix (trace w' @
            [Log Info ''Starting CBC Chain initialization...'' [],
             Log Info ''Runtime versions table is empty or incomplete, bootstrapping...'' [],
             RPCCall version_request])
          (trace (snd (Initialize env' (NewCBCInitializer d wsEndpoint) w'))))"
proof -
  have a: "Initialize env c w =
          (None,
           Logger_Info ''Runtime version already exists (spec: %d), skipping bootstrap''
             [AInt (RecSpecVersion r)]
             (Logger_Info ''Starting CBC Chain initialization...'' [] w))"
    if "RuntimeVersionRecent (dao c) (store w) = Some r" "has_usable_metadata (Some r)"
    using that by (simp add: Initialize_def Let_def Logger_Info_def store_emit)
  have b: "prefix (trace w' @
            [Log Info ''Starting CBC Chain initialization...'' [],
             Log Info ''Runtime versions table is empty or incomplete, bootstrapping...'' [],
             RPCCall version_request])
          (trace (snd (Initialize env' (NewCBCInitializer d wsEndpoint) w')))"
    if n: "\<not> has_usable_metadata (RuntimeVersionRecent d (store w'))"
  proof -
    let ?c = "NewCBCInitializer d wsEndpoint"
    let ?ws = "Logger_Info ''Starting CBC Chain initialization...'' [] w'"
    have r: "0 < retries ?c" and d: "dao ?c = d" by (simp_all add: NewCBCInitializer_def Let_def)
    have "Initialize env' ?c w' = Initialize_bootstrap env' ?c ?ws"
      using n d by (intro Initialize_bootstraps) simp
    then show ?thesis
      using Initialize_bootstrap_first_call[OF r, of ?ws env']
      by (simp add: Logger_Info_def trace_emit)
  qed
  show ?thesis using has_usable_metadata_iff a b by blast
qed

theorem metadata_check_is_prefix_test_witness:
  "has_usable_metadata (Some (stored_row ''0x6d657461''))
   \<and> Initialize (test_env unreachable_node) test_initializer
        \<lparr>store = Some (stored_row ''0x6d657461''), trace = []\<rparr>
      = (None,
         \<lparr>store = Some (stored_row ''0x6d657461''),
          trace = [Log Info ''Starting CBC Chain initialization...'' [],
                   Log Info ''Runtime version already exists (spec: %d), skipping bootstrap''
                     [AInt 100]]\<rparr>)
   \<and> \<not> has_usable_metadata (RuntimeVersionRecent memory_dao (store empty_world))
   \<and> prefix
        [Log Info ''Starting CBC Chain initialization...'' [],
         Log Info ''Runtime versions table is empty or incomplete, bootstrapping...'' [],
         RPCCall version_request]
        (trace (snd (Initialize (test_env unreachable_node)
                       (NewCBCInitializer memory_dao ''ws://localhost:9944'') empty_world)))"
proof -
  let ?w = "\<lparr>store = Some (stored_row ''0x6d657461''), trace = []\<rparr>"
  have h1: "RuntimeVersionRecent (dao test_initializer) (store ?w) = Some (stored_row ''0x6d657461'')"
    by (simp add: test_initializer_def NewCBCInitializer_def memory_dao_def)
  have h2: "has_usable_metadata (Some (stored_row ''0x6d657461''))"
    by (simp add: has_usable_metadata_def stored_row_def HasPrefix_def)
  have h3: "\<not> has_usable_metadata (RuntimeVersionRecent memory_dao (store empty_world))"
    by (simp add: has_usable_metadata_def memory_dao_def empty_world_def)
  show ?thesis
    using h1 h2 h3
      metadata_check_is_prefix_test [of "Some (stored_row ''0x6d657461'')" test_initializer ?w
        "stored_row ''0x6d657461''" "test_env unreachable_node" memory_dao empty_world
        "test_env unreachable_node" "''ws://localhost:9944''"]
    by (simp add: Logger_Info_def emit_def empty_world_def stored_row_def)
qed

section \<open>Idempotence of Initialize\<close>

text \<open>
  C2. When the store holds a record that is valid in the sense of the data model
  (non-empty, \<open>0x\<close> prefix, more than 100 characters), \<open>Initialize\<close> returns success, and
  so does a second call right after it; neither call hands a request to \<open>makeRPCCall\<close> or
  issues a write, and the store is the same after each.
\<close>

theorem bootstrap_skipped_for_valid_record:
  assumes "RuntimeVersionRecent (dao c) (store w) = Some r" and "spec_valid_record r"
  shows "fst (Initialize env c w) = None
       \<and> fst (Initialize env c (snd (Initialize env c w))) = None
       \<and> rpc_calls (snd (Initialize env c w)) = rpc_calls w
       \<and> rpc_calls (snd (Initialize env c (snd (Initialize env c w)))) = rpc_calls w
       \<and> store_writes (snd (Initialize env c (snd (Initialize env c w)))) = store_writes w
       \<and> store (snd (Initialize env c w)) = store w
       \<and> store (snd (Initialize env c (snd (Initialize env c w)))) = store w"
proof -
  let ?skip = "\<lambda>w. w\<lparr>trace := trace w @
              [Log Info ''Starting CBC Chain initialization...'' [],
               Log Info ''Runtime version already exists (spec: %d), skipping bootstrap''
                 [AInt (RecSpecVersion r)]]\<rparr>"
  have p: "HasPrefix (RawData r) ''0x''" using assms(2) by (simp add: spec_valid_record_def)
  have i1: "Initialize env c w = (None, ?skip w)"
    using assms(1) p by (rule Initialize_skip)
  have "RuntimeVersionRecent (dao c) (store (?skip w)) = Some r" using assms(1) by simp
  then have i2: "Initialize env c (?skip w) = (None, ?skip (?skip w))"
    using p by (rule Initialize_skip)
  show ?thesis
    unfolding i1 fst_conv snd_conv i2
    by (simp add: rpc_calls_def store_writes_def)
qed

theorem bootstrap_skipped_for_valid_record_witness:
  "RuntimeVersionRecent (dao test_initializer)
       (store \<lparr>store = Some (stored_row (''0x'' @ replicate 120 (CHR ''a''))), trace = []\<rparr>)
     = Some (stored_row (''0x'' @ replicate 120 (CHR ''a'')))
   \<and> spec_valid_record (stored_row (''0x'' @ replicate 120 (CHR ''a'')))
   \<and> fst (Initialize (test_env unreachable_node) test_initializer
        \<lparr>store = Some (stored_row (''0x'' @ replicate 120 (CHR ''a''))), trace = []\<rparr>) = None
   \<and> rpc_calls (snd (Initialize (test_env unreachable_node) test_initializer
        (snd (Initialize (test_env unreachable_node) test_initializer
           \<lparr>store = Some (stored_row (''0x'' @ replicate 120 (CHR ''a''))), trace = []\<rparr>)))) = []"
proof -
  let ?r = "stored_row (''0x'' @ replicate 120 (CHR ''a''))"
  let ?w = "\<lparr>store = Some ?r, trace = []\<rparr>"
  have h1: "RuntimeVersionRecent (dao test_initializer) (store ?w) = Some ?r"
    by (simp add: test_initializer_def NewCBCInitializer_def memory_dao_def)
  have h2: "spec_valid_record ?r"
    by (simp add: spec_valid_record_def stored_row_def HasPrefix_def)
  have "rpc_calls ?w = []" by (simp add: rpc_calls_def)
  then show ?thesis
    using h1 h2
      bootstrap_skipped_for_valid_record [OF h1 h2, of "test_env unreachable_node"]
    by simp
qed


section \<open>Retry exhaustion\<close>

lemma fetchMetadata_attempt_worldD:
  "fetchMetadata_attempt env c w = (r, w') \<Longrightarrow> w' = emit (RPCCall metadata_request) w"
  using fetchMetadata_attempt_world[of env c w] by simp

lemma fetchRuntimeVersion_attempt_worldD:
  "fetchRuntimeVersion_attempt env c w = (r, w') \<Longrightarrow> w' = emit (RPCCall version_request) w"
  using fetchRuntimeVersion_attempt_world[of env c w] by simp

lemma fetchMetadata_exhausted:
  assumes r: "retries c = 3"
    and a1: "fetchMetadata_attempt env c w = (Inl e1, w1)"
    and a2: "fetchMetadata_attempt env c
               (retry_pause ''Retry %d/%d: Fetching metadata...'' c 1 w1) = (Inl e2, w2)"
    and a3: "fetchMetadata_attempt env c
               (retry_pause ''Retry %d/%d: Fetching metadata...'' c 2 w2) = (Inl e3, w3)"
  shows "fetchMetadata env c w
           = (Inl (Errorf ''failed after %d retries: %w'' [AInt 3, AErr e3]), w3)"
proof -
  have s3: "fetchMetadata_loop env c 3 (Some e3) w3
              = (Inl (Errorf ''failed after %d retries: %w'' [AInt 3, AErr e3]), w3)"
    using r by (simp add: fetchMetadata_loop.simps[of env c 3])
  have s2: "fetchMetadata_loop env c 2 (Some e2) w2 = fetchMetadata_loop env c 3 (Some e3) w3"
    using r a3 by (simp add: fetchMetadata_loop.simps[of env c 2])
  have s1: "fetchMetadata_loop env c 1 (Some e1) w1 = fetchMetadata_loop env c 2 (Some e2) w2"
    using r a2 by (simp add: fetchMetadata_loop.simps[of env c 1])
  have s0: "fetchMetadata_loop env c 0 None w = fetchMetadata_loop env c 1 (Some e1) w1"
    using r a1 by (simp add: fetchMetadata_loop.simps[of env c 0] retry_pause_0)
  show ?thesis unfolding fetchMetadata_def s0 s1 s2 s3 ..
qed

lemma fetchMetadata_exhausted_trace:
  assumes a1: "fetchMetadata_attempt env c w = (Inl e1, w1)"
    and a2: "fetchMetadata_attempt env c
               (retry_pause ''Retry %d/%d: Fetching metadata...'' c 1 w1) = (Inl e2, w2)"
    and a3: "fetchMetadata_attempt env c
               (retry_pause ''Retry %d/%d: Fetching metadata...'' c 2 w2) = (Inl e3, w3)"
  shows "trace w3 = trace w @
           [RPCCall metadata_request,
            Log Warning ''Retry %d/%d: Fetching metadata...'' [AInt 1, AInt (retries c)],
            Sleep (retryWait c),
            RPCCall metadata_request,
            Log Warning ''Retry %d/%d: Fetching metadata...'' [AInt 2, AInt (retries c)],
            Sleep (retryWait c),
            RPCCall metadata_request]"
proof -
  have "w1 = emit (RPCCall metadata_request) w"
    using a1 by (rule fetchMetadata_attempt_worldD)
  moreover have "w2 = emit (RPCCall metadata_request)
                        (retry_pause ''Retry %d/%d: Fetching metadata...'' c 1 w1)"
    using a2 by (rule fetchMetadata_attempt_worldD)
  moreover have "w3 = emit (RPCCall metadata_request)
                        (retry_pause ''Retry %d/%d: Fetching metadata...'' c 2 w2)"
    using a3 by (rule fetchMetadata_attempt_worldD)
  ultimately show ?thesis by (simp add: trace_emit trace_retry_pause)
qed

lemma fetchRuntimeVersion_exhausted:
  assumes r: "retries c = 3"
    and a1: "fetchRuntimeVersion_attempt env c w = (Inl e1, w1)"
    and a2: "fetchRuntimeVersion_attempt env c
               (retry_pause ''Retry %d/%d: Fetching runtime version...'' c 1 w1) = (Inl e2, w2)"
    and a3: "fetchRuntimeVersion_attempt env c
               (retry_pause ''Retry %d/%d: Fetching runtime version...'' c 2 w2) = (Inl e3, w3)"
  shows "fetchRuntimeVersion env c w
           = (Inl (Errorf ''failed after %d retries: %w'' [AInt 3, AErr e3]), w3)"
proof -
  have s3: "fetchRuntimeVersion_loop env c 3 (Some e3) w3
              = (Inl (Errorf ''failed after %d retries: %w'' [AInt 3, AErr e3]), w3)"
    using r by (simp add: fetchRuntimeVersion_loop.simps[of env c 3])
  have s2: "fetchRuntimeVersion_loop env c 2 (Some e2) w2
              = fetchRuntimeVersion_loop env c 3 (Some e3) w3"
    using r a3 by (simp add: fetchRuntimeVersion_loop.simps[of env c 2])
  have s1: "fetchRuntimeVersion_loop env c 1 (Some e1) w1
              = fetchRuntimeVersion_loop env c 2 (Some e2) w2"
    using r a2 by (simp add: fetchRuntimeVersion_loop.simps[of env c 1])
  have s0: "fetchRuntimeVersion_loop env c 0 None w
              = fetchRuntimeVersion_loop env c 1 (Some e1) w1"
    using r a1 by (simp add: fetchRuntimeVersion_loop.simps[of env c 0] retry_pause_0)
  show ?thesis unfolding fetchRuntimeVersion_def s0 s1 s2 s3 ..
qed

lemma fetchRuntimeVersion_exhausted_trace:
  assumes a1: "fetchRuntimeVersion_attempt env c w = (Inl e1, w1)"
    and a2: "fetchRuntimeVersion_attempt env c
               (retry_pause ''Retry %d/%d: Fetching runtime version...'' c 1 w1) = (Inl e2, w2)"
    and a3: "fetchRuntimeVersion_attempt env c
               (retry_pause ''Retry %d/%d: Fetching runtime version...'' c 2 w2) = (Inl e3, w3)"
  shows "trace w3 = trace w @
           [RPCCall version_request,
            Log Warning ''Retry %d/%d: Fetching runtime version...'' [AInt 1, AInt (retries c)],
            Sleep (retryWait c),
            RPCCall version_request,
            Log Warning ''Retry %d/%d: Fetching runtime version...'' [AInt 2, AInt (retries c)],
            Sleep (retryWait c),
            RPCCall version_request]"
proof -
  have "w1 = emit (RPCCall version_request) w"
    using a1 by (rule fetchRuntimeVersion_attempt_worldD)
  moreover have "w2 = emit (RPCCall version_request)
                        (retry_pause ''Retry %d/%d: Fetching runtime version...'' c 1 w1)"
    using a2 by (rule fetchRuntimeVersion_attempt_worldD)
  moreover have "w3 = emit (RPCCall version_request)
                        (retry_pause ''Retry %d/%d: Fetching runtime version...'' c 2 w2)"
    using a3 by (rule fetchRuntimeVersion_attempt_worldD)
  ultimately show ?thesis by (simp add: trace_emit trace_retry_pause)
qed

lemma Initialize_version_failure:
  assumes "\<not> has_usable_metadata (RuntimeVersionRecent (dao c) (store w))"
    and "fetchRuntimeVersion env c
           (Logger_Info ''Runtime versions table is empty or incomplete, bootstrapping...'' []
              (Logger_Info ''Starting CBC Chain initialization...'' [] w)) = (Inl err, w')"
  shows "Initialize env c w
           = (Some (Errorf ''failed to fetch runtime version: %w'' [AErr err]), w')"
  using assms(2) unfolding Initialize_bootstraps[OF assms(1)]
  by (simp add: Initialize_bootstrap_def)

lemma Initialize_metadata_failure:
  assumes "\<not> has_usable_metadata (RuntimeVersionRecent (dao c) (store w))"
    and "fetchRuntimeVersion env c
           (Logger_Info ''Runtime versions table is empty or incomplete, bootstrapping...'' []
              (Logger_Info ''Starting CBC Chain initialization...'' [] w)) = (Inr version, wv)"
    and "fetchMetadata env c
           (Logger_Info ''Fetched runtime version: %s v%d''
              [AStr (SpecName version), AInt (SpecVersion version)] wv) = (Inl err, w')"
  shows "Initialize env c w = (Some (Errorf ''failed to fetch metadata: %w'' [AErr err]), w')"
  using assms(2,3) unfolding Initialize_bootstraps[OF assms(1)]
  by (simp add: Initialize_bootstrap_def)

lemma NewCBCInitializer_fields:
  "retries (NewCBCInitializer d wsEndpoint) = 3"
  "retryWait (NewCBCInitializer d wsEndpoint) = 2 * time_Second"
  "dao (NewCBCInitializer d wsEndpoint) = d"
  "nodeURL (NewCBCInitializer d wsEndpoint) = wsEndpoint"
  by (simp_all add: NewCBCInitializer_def Let_def)

lemma test_env_call_fails:
  "node (trace w) (req_Method req) = Inl e \<Longrightarrow>
   makeRPCCall (test_env node) c req w
     = (Inl (Errorf ''failed to make request: %w'' [AErr e]), emit (RPCCall req) w)"
  by (simp add: makeRPCCall_def test_env_def Let_def)

lemma test_env_call_answers:
  "node (trace w) (req_Method req) = Inr result \<Longrightarrow>
   makeRPCCall (test_env node) c req w
     = (Inr \<lparr>resp_ID = 1, resp_JSONRPC = ''2.0'', resp_Result = result, resp_Error = None\<rparr>,
        emit (RPCCall req) w)"
  by (simp add: makeRPCCall_def test_env_def Let_def)

lemma test_env_unmarshal [simp]:
  "json_Unmarshal_string (test_env node) raw = Inr raw"
  "json_Unmarshal_RuntimeVersion (test_env node) raw = Inr (test_version raw)"
  "json_Unmarshal_map (test_env node) raw = None"
  by (simp_all add: test_env_def)

text \<open>
  C3. The initializer built by \<open>NewCBCInitializer\<close> has a budget of 3 attempts and a
  pause of 2 seconds. For each of the two fetches inside \<open>Initialize\<close>: if the first, the
  second and the third attempt fail, the fetch returns the error
  \<open>failed after 3 retries\<close> wrapping the cause of the third attempt; the events of the
  fetch are exactly three calls of \<open>makeRPCCall\<close> with a warning and a pause of 2 seconds
  between consecutive ones, so no fourth attempt is made; and \<open>Initialize\<close> fails with
  that error wrapped once more (\<open>failed to fetch runtime version\<close>, \<open>failed to fetch
  metadata\<close>).
\<close>

theorem retry_exhaustion:
  fixes d :: "'s IDao" and wsEndpoint :: string and w u uv :: "'s world"
    and version :: RuntimeVersion
  defines "c \<equiv> NewCBCInitializer d wsEndpoint"
    and "wb \<equiv> Logger_Info ''Runtime versions table is empty or incomplete, bootstrapping...'' []
                (Logger_Info ''Starting CBC Chain initialization...'' [] w)"
    and "ub \<equiv> Logger_Info ''Runtime versions table is empty or incomplete, bootstrapping...'' []
                (Logger_Info ''Starting CBC Chain initialization...'' [] u)"
  defines "um \<equiv> Logger_Info ''Fetched runtime version: %s v%d''
                    [AStr (SpecName version), AInt (SpecVersion version)] uv"
  assumes nw: "\<not> has_usable_metadata (RuntimeVersionRecent d (store w))"
    and v1: "fetchRuntimeVersion_attempt env c wb = (Inl a1, w1)"
    and v2: "fetchRuntimeVersion_attempt env c
               (retry_pause ''Retry %d/%d: Fetching runtime version...'' c 1 w1) = (Inl a2, w2)"
    and v3: "fetchRuntimeVersion_attempt env c
               (retry_pause ''Retry %d/%d: Fetching runtime version...'' c 2 w2) = (Inl a3, w3)"
    and nu: "\<not> has_usable_metadata (RuntimeVersionRecent d (store u))"
    and fv: "fetchRuntimeVersion env' c ub = (Inr version, uv)"
    and m1: "fetchMetadata_attempt env' c um = (Inl b1, u1)"
    and m2: "fetchMetadata_attempt env' c
               (retry_pause ''Retry %d/%d: Fetching metadata...'' c 1 u1) = (Inl b2, u2)"
    and m3: "fetchMetadata_attempt env' c
               (retry_pause ''Retry %d/%d: Fetching metadata...'' c 2 u2) = (Inl b3, u3)"
  shows "fetchRuntimeVersion env c wb
           = (Inl (Errorf ''failed after %d retries: %w'' [AInt 3, AErr a3]), w3)
       \<and> trace w3 = trace wb @
           [RPCCall version_request,
            Log Warning ''Retry %d/%d: Fetching runtime version...'' [AInt 1, AInt 3],
            Sleep (2 * time_Second),
            RPCCall version_request,
            Log Warning ''Retry %d/%d: Fetching runtime version...'' [AInt 2, AInt 3],
            Sleep (2 * time_Second),
            RPCCall version_request]
       \<and> rpc_calls w3 = rpc_calls w @ [version_request, version_request, version_request]
       \<and> Initialize env c w
           = (Some (Errorf ''failed to fetch runtime version: %w''
                [AErr (Errorf ''failed after %d retries: %w'' [AInt 3, AErr a3])]), w3)
       \<and> fetchMetadata env' c um
           = (Inl (Errorf ''failed after %d retries: %w'' [AInt 3, AErr b3]), u3)
       \<and> trace u3 = trace um @
           [RPCCall metadata_request,
            Log Warning ''Retry %d/%d: Fetching metadata...'' [AInt 1, AInt 3],
            Sleep (2 * time_Second),
            RPCCall metadata_request,
            Log Warning ''Retry %d/%d: Fetching metadata...'' [AInt 2, AInt 3],
            Sleep (2 * time_Second),
            RPCCall metadata_request]
       \<and> rpc_calls u3 = rpc_calls um @ [metadata_request, metadata_request, metadata_request]
       \<and> Initialize env' c u
           = (Some (Errorf ''failed to fetch metadata: %w''
                [AErr (Errorf ''failed after %d retries: %w'' [AInt 3, AErr b3])]), u3)"
proof -
  have r: "retries c = 3" and rw: "retryWait c = 2 * time_Second" and dc: "dao c = d"
    by (simp_all add: c_def NewCBCInitializer_fields)
  have fV: "fetchRuntimeVersion env c wb
           = (Inl (Errorf ''failed after %d retries: %w'' [AInt 3, AErr a3]), w3)"
    using r v1 v2 v3 by (rule fetchRuntimeVersion_exhausted)
  have tV: "trace w3 = trace wb @
           [RPCCall version_request,
            Log Warning ''Retry %d/%d: Fetching runtime version...'' [AInt 1, AInt 3],
            Sleep (2 * time_Second),
            RPCCall version_request,
            Log Warning ''Retry %d/%d: Fetching runtime version...'' [AInt 2, AInt 3],
            Sleep (2 * time_Second),
            RPCCall version_request]"
    using fetchRuntimeVersion_exhausted_trace[OF v1 v2 v3] by (simp only: r rw)
  have rV: "rpc_calls w3 = rpc_calls w @ [version_request, version_request, version_request]"
    by (simp add: rpc_calls_def tV wb_def Logger_Info_def trace_emit)
  have iV: "Initialize env c w
           = (Some (Errorf ''failed to fetch runtime version: %w''
                [AErr (Errorf ''failed after %d retries: %w'' [AInt 3, AErr a3])]), w3)"
    using nw fV unfolding wb_def by (intro Initialize_version_failure) (simp_all add: dc)
  have fM: "fetchMetadata env' c um
           = (Inl (Errorf ''failed after %d retries: %w'' [AInt 3, AErr b3]), u3)"
    using r m1 m2 m3 by (rule fetchMetadata_exhausted)
  have tM: "trace u3 = trace um @
           [RPCCall metadata_request,
            Log Warning ''Retry %d/%d: Fetching metadata...'' [AInt 1, AInt 3],
            Sleep (2 * time_Second),
            RPCCall metadata_request,
            Log Warning ''Retry %d/%d: Fetching metadata...'' [AInt 2, AInt 3],
            Sleep (2 * time_Second),
            RPCCall metadata_request]"
    using fetchMetadata_exhausted_trace[OF m1 m2 m3] by (simp only: r rw)
  have rM: "rpc_calls u3 = rpc_calls um @ [metadata_request, metadata_request, metadata_request]"
    by (simp add: rpc_calls_def tM)
  have iM: "Initialize env' c u
           = (Some (Errorf ''failed to fetch metadata: %w''
                [AErr (Errorf ''failed after %d retries: %w'' [AInt 3, AErr b3])]), u3)"
    using nu fv fM unfolding ub_def um_def
    by (intro Initialize_metadata_failure[where version = version and wv = uv]) (simp_all add: dc)
  show ?thesis using fV tV rV iV fM tM rM iM by blast
qed

theorem retry_exhaustion_witness:
  "\<not> has_usable_metadata (RuntimeVersionRecent memory_dao (store empty_world))
   \<and> Initialize (test_env unreachable_node)
        (NewCBCInitializer memory_dao ''ws://localhost:9944'') empty_world
      = (Some (Errorf ''failed to fetch runtime version: %w''
           [AErr (Errorf ''failed after %d retries: %w''
              [AInt 3, AErr (Errorf ''failed to make request: %w''
                 [AErr (Errorf ''connection refused'' [])])])]),
         \<lparr>store = None,
          trace =
            [Log Info ''Starting CBC Chain initialization...'' [],
             Log Info ''Runtime versions table is empty or incomplete, bootstrapping...'' [],
             RPCCall version_request,
             Log Warning ''Retry %d/%d: Fetching runtime version...'' [AInt 1, AInt 3],
             Sleep (2 * time_Second),
             RPCCall version_request,
             Log Warning ''Retry %d/%d: Fetching runtime version...'' [AInt 2, AInt 3],
             Sleep (2 * time_Second),
             RPCCall version_request]\<rparr>)
   \<and> fst (Initialize (test_env version_only_node)
        (NewCBCInitializer memory_dao ''ws://localhost:9944'') empty_world)
      = Some (Errorf ''failed to fetch metadata: %w''
           [AErr (Errorf ''failed after %d retries: %w''
              [AInt 3, AErr (Errorf ''failed to make request: %w''
                 [AErr (Errorf ''connection refused'' [])])])])
   \<and> rpc_calls (snd (Initialize (test_env version_only_node)
        (NewCBCInitializer memory_dao ''ws://localhost:9944'') empty_world))
      = [version_request, metadata_request, metadata_request, metadata_request]"
proof -
  let ?c = "NewCBCInitializer memory_dao ''ws://localhost:9944''"
  let ?e = "Errorf ''failed to make request: %w'' [AErr (Errorf ''connection refused'' [])]"
  let ?wb = "Logger_Info ''Runtime versions table is empty or incomplete, bootstrapping...'' []
               (Logger_Info ''Starting CBC Chain initialization...'' [] empty_world)"
  let ?um = "Logger_Info ''Fetched runtime version: %s v%d''
               [AStr (SpecName (test_version ''cbc-chain'')),
                AInt (SpecVersion (test_version ''cbc-chain''))]
               (emit (RPCCall version_request) ?wb)"
  have n: "\<not> has_usable_metadata (RuntimeVersionRecent memory_dao (store empty_world))"
    by (simp add: has_usable_metadata_def memory_dao_def empty_world_def)
  have v: "fetchRuntimeVersion_attempt (test_env unreachable_node) ?c w
             = (Inl ?e, emit (RPCCall version_request) w)" for w
    by (simp add: fetchRuntimeVersion_attempt_def test_env_call_fails unreachable_node_def)
  have m: "fetchMetadata_attempt (test_env version_only_node) ?c w
             = (Inl ?e, emit (RPCCall metadata_request) w)" for w
    by (simp add: fetchMetadata_attempt_def test_env_call_fails version_only_node_def
        metadata_request_def)
  have a: "fetchRuntimeVersion_attempt (test_env version_only_node) ?c ?wb
             = (Inr (test_version ''cbc-chain''), emit (RPCCall version_request) ?wb)"
    by (simp add: fetchRuntimeVersion_attempt_def test_env_call_answers version_only_node_def
        version_request_def)
  have fv: "fetchRuntimeVersion (test_env version_only_node) ?c ?wb
             = (Inr (test_version ''cbc-chain''), emit (RPCCall version_request) ?wb)"
    by (simp add: fetchRuntimeVersion_def fetchRuntimeVersion_loop.simps[of _ _ 0] a
        retry_pause_0 NewCBCInitializer_fields)
  note t = retry_exhaustion [OF n v v v n fv m m m]
  show ?thesis
    using n t
    by (simp add: empty_world_def Logger_Info_def Logger_Warning_def time_Sleep_def emit_def
        retry_pause_def rpc_calls_def NewCBCInitializer_fields)
qed

section \<open>The prefix of fetched metadata\<close>

lemma fetchMetadata_attempt_bad_prefix:
  assumes "makeRPCCall env c metadata_request w = (Inr resp, w1)"
    and "json_Unmarshal_string env (resp_Result resp) = Inr s"
    and "\<not> HasPrefix s ''0x''"
  shows "fetchMetadata_attempt env c w
           = (Inl (Errorf ''invalid metadata format: missing 0x prefix'' []), w1)"
  using assms by (simp add: fetchMetadata_attempt_def)

text \<open>
  C10. A string that \<open>fetchMetadata\<close> returns without error begins with \<open>0x\<close>. An
  attempt whose response decodes to a string \<open>s\<close> without that prefix fails with
  \<open>invalid metadata format\<close>; the loop counts it (it goes on with \<open>i + 1\<close> and this error
  as the last cause) and never returns \<open>s\<close> as a success.
\<close>

theorem fetched_metadata_has_prefix:
  assumes ok: "fetchMetadata env c w = (Inr metadataHex, w')"
    and i: "i < retries c'"
    and call: "makeRPCCall env' c' metadata_request
                 (retry_pause ''Retry %d/%d: Fetching metadata...'' c' i u) = (Inr resp, u1)"
    and dec: "json_Unmarshal_string env' (resp_Result resp) = Inr s"
    and bad: "\<not> HasPrefix s ''0x''"
  shows "HasPrefix metadataHex ''0x''
       \<and> take 2 metadataHex = ''0x''
       \<and> fetchMetadata_attempt env' c'
            (retry_pause ''Retry %d/%d: Fetching metadata...'' c' i u)
           = (Inl (Errorf ''invalid metadata format: missing 0x prefix'' []), u1)
       \<and> fetchMetadata_loop env' c' i lastErr u
           = fetchMetadata_loop env' c' (i + 1)
               (Some (Errorf ''invalid metadata format: missing 0x prefix'' [])) u1
       \<and> (\<forall>u'. fetchMetadata_loop env' c' i lastErr u \<noteq> (Inr s, u'))"
proof -
  have p: "HasPrefix metadataHex ''0x''"
    using ok unfolding fetchMetadata_def by (rule fetchMetadata_loop_prefix)
  then have t: "take 2 metadataHex = ''0x''"
    by (auto simp: HasPrefix_iff_append)
  have a: "fetchMetadata_attempt env' c'
            (retry_pause ''Retry %d/%d: Fetching metadata...'' c' i u)
           = (Inl (Errorf ''invalid metadata format: missing 0x prefix'' []), u1)"
    using call dec bad by (rule fetchMetadata_attempt_bad_prefix)
  have l: "fetchMetadata_loop env' c' i lastErr u
           = fetchMetadata_loop env' c' (i + 1)
               (Some (Errorf ''invalid metadata format: missing 0x prefix'' [])) u1"
    using i a by (simp add: fetchMetadata_loop.simps[of env' c' i])
  have n: "fetchMetadata_loop env' c' i lastErr u \<noteq> (Inr s, u')" for u'
    using fetchMetadata_loop_prefix[of env' c' i lastErr u s u'] bad by blast
  show ?thesis using p t a l n by blast
qed

theorem fetched_metadata_has_prefix_witness:
  "fetchMetadata (test_env (answering_node ''0x6d657461'')) test_initializer empty_world
     = (Inr ''0x6d657461'', \<lparr>store = None, trace = [RPCCall metadata_request]\<rparr>)
   \<and> HasPrefix ''0x6d657461'' ''0x''
   \<and> (0::int) < retries test_initializer
   \<and> \<not> HasPrefix ''6d657461'' ''0x''
   \<and> fetchMetadata_attempt (test_env (answering_node ''6d657461'')) test_initializer empty_world
     = (Inl (Errorf ''invalid metadata format: missing 0x prefix'' []),
        \<lparr>store = None, trace = [RPCCall metadata_request]\<rparr>)
   \<and> fetchMetadata (test_env (answering_node ''6d657461'')) test_initializer empty_world
     = fetchMetadata_loop (test_env (answering_node ''6d657461'')) test_initializer 1
         (Some (Errorf ''invalid metadata format: missing 0x prefix'' []))
         \<lparr>store = None, trace = [RPCCall metadata_request]\<rparr>"
proof -
  let ?good = "test_env (answering_node ''0x6d657461'')"
  let ?bad = "test_env (answering_node ''6d657461'')"
  let ?w1 = "emit (RPCCall metadata_request) empty_world"
  let ?resp = "\<lparr>resp_ID = 1, resp_JSONRPC = ''2.0'', resp_Result = ''6d657461'',
                resp_Error = None\<rparr>"
  have r: "(0::int) < retries test_initializer"
    by (simp add: test_initializer_def NewCBCInitializer_fields)
  have g: "fetchMetadata_attempt ?good test_initializer empty_world = (Inr ''0x6d657461'', ?w1)"
    by (simp add: fetchMetadata_attempt_def test_env_call_answers answering_node_def
        HasPrefix_def)
  have ok: "fetchMetadata ?good test_initializer empty_world = (Inr ''0x6d657461'', ?w1)"
    using r g by (simp add: fetchMetadata_def fetchMetadata_loop.simps[of _ _ 0] retry_pause_0)
  have call: "makeRPCCall ?bad test_initializer metadata_request
                (retry_pause ''Retry %d/%d: Fetching metadata...'' test_initializer 0 empty_world)
              = (Inr ?resp, ?w1)"
    by (simp add: retry_pause_0 test_env_call_answers answering_node_def)
  have dec: "json_Unmarshal_string ?bad (resp_Result ?resp) = Inr ''6d657461''"
    by simp
  have bad: "\<not> HasPrefix ''6d657461'' ''0x''"
    by (simp add: HasPrefix_def)
  note t = fetched_metadata_has_prefix [OF ok r call dec bad, of None]
  show ?thesis
    using r bad ok t
    by (simp add: fetchMetadata_def retry_pause_0 emit_def empty_world_def)
qed


section \<open>Verification after the writes\<close>

lemma makeRPCCall_not_verification_error:
  "fst (makeRPCCall env c req w)
     \<noteq> Inl (Errorf ''failed to verify runtime data after insert - metadata not found in database'' [])"
  by (simp add: makeRPCCall_def Let_def split: sum.splits option.splits)

lemma insertRuntimeVersion_verification_failure:
  fixes c :: "'s CBCInitializer" and w :: "'s world" and version :: RuntimeVersion
    and metadataHex :: string
  defines "cr \<equiv> CreateRuntimeVersion (dao c) (SpecName version) (SpecVersion version) 0 (store w)"
  defines "sr \<equiv> SetRuntimeData (dao c) (SpecVersion version) CBC_modules metadataHex (snd cr)"
  assumes issued: "case RuntimeVersionRecent (dao c) (store w) of None \<Rightarrow> True
                   | Some r \<Rightarrow> RecSpecVersion r \<noteq> SpecVersion version \<or> length (RawData r) \<le> 100"
    and reread: "case RuntimeVersionRecent (dao c) (snd sr) of None \<Rightarrow> True
                 | Some r \<Rightarrow> RecSpecVersion r \<noteq> SpecVersion version \<or> length (RawData r) < 100"
  shows "insertRuntimeVersion c version metadataHex w
           = (Some (Errorf
                ''failed to verify runtime data after insert - metadata not found in database'' []),
              w\<lparr>store := snd sr,
                trace := trace w @
                  [Log Info ''Inserting runtime version %d into database...''
                     [AInt (SpecVersion version)],
                   DaoCreate (SpecName version) (SpecVersion version) 0,
                   Log Info ''CreateRuntimeVersion returned: %v'' [AInt (fst cr)],
                   DaoSet (SpecVersion version) CBC_modules metadataHex,
                   Log Info ''SetRuntimeData affected %d rows'' [AInt (fst sr)]]\<rparr>)"
proof -
  have a: "\<not> (RuntimeVersionRecent (dao c) (store w) \<noteq> None
             \<and> RecSpecVersion (the (RuntimeVersionRecent (dao c) (store w))) = SpecVersion version
             \<and> length (RawData (the (RuntimeVersionRecent (dao c) (store w)))) > 100)"
    using issued by (auto split: option.splits)
  have b: "RuntimeVersionRecent (dao c) (snd sr) = None
           \<or> RecSpecVersion (the (RuntimeVersionRecent (dao c) (snd sr))) \<noteq> SpecVersion version
           \<or> length (RawData (the (RuntimeVersionRecent (dao c) (snd sr)))) < 100"
    using reread by (auto split: option.splits)
  show ?thesis
    using a b unfolding cr_def sr_def
    by (simp add: insertRuntimeVersion_def Let_def Logger_Info_def emit_def case_prod_beta)
qed

text \<open>
  C4. Let both fetches of \<open>Initialize\<close> succeed and let the first check of
  \<open>insertRuntimeVersion\<close> not skip, so that the two writes are issued. If the re-read of
  the store after the writes yields no record, or a record with another spec version, or a
  record whose metadata has fewer than 100 characters, then \<open>Initialize\<close> fails with
  \<open>failed to insert runtime version\<close> wrapping the verification error. Each write was
  issued once, no request was handed to \<open>makeRPCCall\<close> after the fetches, and nothing
  follows the re-read: the failure is not retried. The verification error is none of the
  errors of \<open>makeRPCCall\<close>, and the result is neither of the two fetch failures.
\<close>

theorem verification_failure:
  fixes d :: "'s IDao" and wsEndpoint :: string and w wv wm :: "'s world"
    and version :: RuntimeVersion and metadataHex :: string
  defines "c \<equiv> NewCBCInitializer d wsEndpoint"
    and "wb \<equiv> Logger_Info ''Runtime versions table is empty or incomplete, bootstrapping...'' []
                (Logger_Info ''Starting CBC Chain initialization...'' [] w)"
    and "wg \<equiv> Logger_Info ''Fetched runtime version: %s v%d''
                [AStr (SpecName version), AInt (SpecVersion version)] wv"
    and "cr \<equiv> CreateRuntimeVersion d (SpecName version) (SpecVersion version) 0 (store wm)"
  defines "sr \<equiv> SetRuntimeData d (SpecVersion version) CBC_modules metadataHex (snd cr)"
  defines "verr \<equiv> Errorf
             ''failed to verify runtime data after insert - metadata not found in database'' []"
  assumes n: "\<not> has_usable_metadata (RuntimeVersionRecent d (store w))"
    and fv: "fetchRuntimeVersion env c wb = (Inr version, wv)"
    and fm: "fetchMetadata env c wg = (Inr metadataHex, wm)"
    and issued: "case RuntimeVersionRecent d (store wm) of None \<Rightarrow> True
                 | Some r \<Rightarrow> RecSpecVersion r \<noteq> SpecVersion version \<or> length (RawData r) \<le> 100"
    and reread: "case RuntimeVersionRecent d (snd sr) of None \<Rightarrow> True
                 | Some r \<Rightarrow> RecSpecVersion r \<noteq> SpecVersion version \<or> length (RawData r) < 100"
  shows "Initialize env c w
           = (Some (Errorf ''failed to insert runtime version: %w'' [AErr verr]),
              wm\<lparr>store := snd sr,
                 trace := trace wm @
                   [Log Info ''Fetched metadata: %d bytes'' [AInt (int (length metadataHex))],
                    Log Info ''Inserting runtime version %d into database...''
                      [AInt (SpecVersion version)],
                    DaoCreate (SpecName version) (SpecVersion version) 0,
                    Log Info ''CreateRuntimeVersion returned: %v'' [AInt (fst cr)],
                    DaoSet (SpecVersion version) CBC_modules metadataHex,
                    Log Info ''SetRuntimeData affected %d rows'' [AInt (fst sr)]]\<rparr>)
       \<and> rpc_calls (snd (Initialize env c w)) = rpc_calls wm
       \<and> store_writes (snd (Initialize env c w))
           = store_writes wm @ [DaoCreate (SpecName version) (SpecVersion version) 0,
                                DaoSet (SpecVersion version) CBC_modules metadataHex]
       \<and> (\<forall>req u. fst (makeRPCCall env c req u) \<noteq> Inl verr)
       \<and> (\<forall>args. fst (Initialize env c w)
                     \<noteq> Some (Errorf ''failed to fetch runtime version: %w'' args)
                 \<and> fst (Initialize env c w) \<noteq> Some (Errorf ''failed to fetch metadata: %w'' args))"
proof -
  let ?wi = "Logger_Info ''Fetched metadata: %d bytes'' [AInt (int (length metadataHex))] wm"
  have dc: "dao c = d" by (simp add: c_def NewCBCInitializer_fields)
  have ins: "insertRuntimeVersion c version metadataHex ?wi
           = (Some verr,
              ?wi\<lparr>store := snd sr,
                trace := trace ?wi @
                  [Log Info ''Inserting runtime version %d into database...''
                     [AInt (SpecVersion version)],
                   DaoCreate (SpecName version) (SpecVersion version) 0,
                   Log Info ''CreateRuntimeVersion returned: %v'' [AInt (fst cr)],
                   DaoSet (SpecVersion version) CBC_modules metadataHex,
                   Log Info ''SetRuntimeData affected %d rows'' [AInt (fst sr)]]\<rparr>)"
    using insertRuntimeVersion_verification_failure[where c = c and w = ?wi and version = version
        and metadataHex = metadataHex] issued reread
    unfolding verr_def sr_def cr_def dc by (simp add: Logger_Info_def store_emit)
  have i: "Initialize env c w
           = (Some (Errorf ''failed to insert runtime version: %w'' [AErr verr]),
              wm\<lparr>store := snd sr,
                 trace := trace wm @
                   [Log Info ''Fetched metadata: %d bytes'' [AInt (int (length metadataHex))],
                    Log Info ''Inserting runtime version %d into database...''
                      [AInt (SpecVersion version)],
                    DaoCreate (SpecName version) (SpecVersion version) 0,
                    Log Info ''CreateRuntimeVersion returned: %v'' [AInt (fst cr)],
                    DaoSet (SpecVersion version) CBC_modules metadataHex,
                    Log Info ''SetRuntimeData affected %d rows'' [AInt (fst sr)]]\<rparr>)"
    using n fv fm ins unfolding wb_def wg_def
    by (simp add: Initialize_bootstraps dc Initialize_bootstrap_def Logger_Info_def emit_def)
  have m: "fst (makeRPCCall env c req u) \<noteq> Inl verr" for req u
    unfolding verr_def by (rule makeRPCCall_not_verification_error)
  show ?thesis
    unfolding i fst_conv snd_conv using m
    by (simp add: rpc_calls_def store_writes_def)
qed

theorem verification_failure_witness:
  "\<not> has_usable_metadata (RuntimeVersionRecent dropping_dao (store empty_world))
   \<and> Initialize (test_env (answering_node ''0x6d657461''))
        (NewCBCInitializer dropping_dao ''ws://localhost:9944'') empty_world
      = (Some (Errorf ''failed to insert runtime version: %w''
           [AErr (Errorf
              ''failed to verify runtime data after insert - metadata not found in database''
              [])]),
         \<lparr>store = None,
          trace =
            [Log Info ''Starting CBC Chain initialization...'' [],
             Log Info ''Runtime versions table is empty or incomplete, bootstrapping...'' [],
             RPCCall version_request,
             Log Info ''Fetched runtime version: %s v%d'' [AStr ''0x6d657461'', AInt 100],
             RPCCall metadata_request,
             Log Info ''Fetched metadata: %d bytes'' [AInt 10],
             Log Info ''Inserting runtime version %d into database...'' [AInt 100],
             DaoCreate ''0x6d657461'' 100 0,
             Log Info ''CreateRuntimeVersion returned: %v'' [AInt 0],
             DaoSet 100 CBC_modules ''0x6d657461'',
             Log Info ''SetRuntimeData affected %d rows'' [AInt 0]]\<rparr>)"
proof -
  let ?env = "test_env (answering_node ''0x6d657461'')"
  let ?c = "NewCBCInitializer dropping_dao ''ws://localhost:9944''"
  let ?wb = "Logger_Info ''Runtime versions table is empty or incomplete, bootstrapping...'' []
               (Logger_Info ''Starting CBC Chain initialization...'' [] empty_world)"
  let ?v = "test_version ''0x6d657461''"
  let ?wv = "emit (RPCCall version_request) ?wb"
  let ?wg = "Logger_Info ''Fetched runtime version: %s v%d''
               [AStr (SpecName ?v), AInt (SpecVersion ?v)] ?wv"
  let ?wm = "emit (RPCCall metadata_request) ?wg"
  have n: "\<not> has_usable_metadata (RuntimeVersionRecent dropping_dao (store empty_world))"
    by (simp add: has_usable_metadata_def dropping_dao_def empty_world_def)
  have fv: "fetchRuntimeVersion ?env ?c ?wb = (Inr ?v, ?wv)"
    by (simp add: fetchRuntimeVersion_def fetchRuntimeVersion_loop.simps[of _ _ 0] retry_pause_0
        NewCBCInitializer_fields fetchRuntimeVersion_attempt_def test_env_call_answers
        answering_node_def)
  have fm: "fetchMetadata ?env ?c ?wg = (Inr ''0x6d657461'', ?wm)"
    by (simp add: fetchMetadata_def fetchMetadata_loop.simps[of _ _ 0] retry_pause_0
        NewCBCInitializer_fields fetchMetadata_attempt_def test_env_call_answers
        answering_node_def HasPrefix_def)
  have s: "store ?wm = None"
    by (simp add: store_emit Logger_Info_def empty_world_def)
  have issued: "case RuntimeVersionRecent dropping_dao (store ?wm) of None \<Rightarrow> True
                 | Some r \<Rightarrow> RecSpecVersion r \<noteq> SpecVersion ?v \<or> length (RawData r) \<le> 100"
    unfolding s by (simp add: dropping_dao_def)
  have reread: "case RuntimeVersionRecent dropping_dao
                  (snd (SetRuntimeData dropping_dao (SpecVersion ?v) CBC_modules ''0x6d657461''
                     (snd (CreateRuntimeVersion dropping_dao (SpecName ?v) (SpecVersion ?v) 0
                        (store ?wm))))) of None \<Rightarrow> True
                 | Some r \<Rightarrow> RecSpecVersion r \<noteq> SpecVersion ?v \<or> length (RawData r) < 100"
    unfolding s by (simp add: dropping_dao_def)
  note t = verification_failure [OF n fv fm issued reread]
  show ?thesis
    using n t
    by (simp add: Logger_Info_def emit_def empty_world_def test_version_def dropping_dao_def)
qed


section \<open>The finality check\<close>

lemma HasSuffix_iff_append: "HasSuffix s suf \<longleftrightarrow> (\<exists>p. s = p @ suf)"
proof
  assume "HasSuffix s suf"
  then have "s = take (length s - length suf) s @ suf"
    by (metis HasSuffix_def append_take_drop_id)
  then show "\<exists>p. s = p @ suf" ..
next
  assume "\<exists>p. s = p @ suf"
  then show "HasSuffix s suf" by (auto simp: HasSuffix_def)
qed

lemma sixty_zeros:
  "''000000000000000000000000000000000000000000000000000000000000'' = replicate 60 (CHR ''0'')"
  by (simp add: eval_nat_numeral)

lemma VerifyDCFFinality_first_call_fails:
  assumes "makeRPCCall env c finalized_head_request
             (Logger_Info ''Verifying DCF finality integration...'' [] w) = (Inl e, w1)"
  shows "VerifyDCFFinality env c w
           = (Some (Errorf ''failed to get finalized head: %w'' [AErr e]), w1)"
  using assms by (simp add: VerifyDCFFinality_def)

lemma VerifyDCFFinality_second_call_fails:
  assumes "makeRPCCall env c finalized_head_request
             (Logger_Info ''Verifying DCF finality integration...'' [] w) = (Inr resp, w1)"
    and "json_Unmarshal_string env (resp_Result resp) = Inr h"
    and "makeRPCCall env c (block_request h) w1 = (Inl e, w2)"
  shows "VerifyDCFFinality env c w
           = (Some (Errorf ''failed to get finalized block: %w'' [AErr e]), w2)"
  using assms by (simp add: VerifyDCFFinality_def)

lemma VerifyDCFFinality_classifies:
  assumes "makeRPCCall env c finalized_head_request
             (Logger_Info ''Verifying DCF finality integration...'' [] w) = (Inr resp, w1)"
    and "json_Unmarshal_string env (resp_Result resp) = Inr h"
    and "makeRPCCall env c (block_request h) w1 = (Inr resp', w2)"
    and "json_Unmarshal_map env (resp_Result resp') = None"
  shows "VerifyDCFFinality env c w =
           (None,
            w2\<lparr>trace := trace w2 @ Log Info ''Finalized block hash: %s'' [AStr h] #
               (if h = ''0x'' \<or> HasSuffix h ''000000000000000000000000000000000000000000000000000000000000''
                then [Log Warning ''WARNING: Finalized head appears to be genesis block - DCF finality may not be syncing properly'' [],
                      Log Warning ''This is expected if the chain just started. If blocks are being produced but not finalized, check the finality sync task in cbc-node/src/service.rs'' []]
                else [Log Info ''DCF finality verification passed'' []])\<rparr>)"
  using assms
  by (simp add: VerifyDCFFinality_def Let_def Logger_Info_def Logger_Warning_def emit_def)

text \<open>
  C5 (as stated: a warning if and only if the hash is empty or the all-zero pattern of 64
  hex digits; success for every other well-formed hash). The test of \<open>VerifyDCFFinality\<close>
  is a suffix test against 60 zeros: a well-formed hash that is not all-zero but ends in 60
  zeros gets the warning.
\<close>

theorem nonzero_hash_gets_warning:
  "well_formed_hash ''0x1234000000000000000000000000000000000000000000000000000000000000''
   \<and> ''0x1234000000000000000000000000000000000000000000000000000000000000'' \<noteq> all_zero_hash
   \<and> ''0x1234000000000000000000000000000000000000000000000000000000000000'' \<noteq> replicate 64 (CHR ''0'')
   \<and> ''0x1234000000000000000000000000000000000000000000000000000000000000'' \<noteq> []
   \<and> VerifyDCFFinality (test_env (answering_node ''0x1234000000000000000000000000000000000000000000000000000000000000'')) test_initializer empty_world
      = (None,
         \<lparr>store = None,
          trace =
            [Log Info ''Verifying DCF finality integration...'' [],
             RPCCall finalized_head_request,
             RPCCall (block_request ''0x1234000000000000000000000000000000000000000000000000000000000000''),
             Log Info ''Finalized block hash: %s'' [AStr ''0x1234000000000000000000000000000000000000000000000000000000000000''],
             Log Warning ''WARNING: Finalized head appears to be genesis block - DCF finality may not be syncing properly'' [],
             Log Warning ''This is expected if the chain just started. If blocks are being produced but not finalized, check the finality sync task in cbc-node/src/service.rs'' []]\<rparr>)"
  by (simp add: well_formed_hash_def is_hex_digit_def all_zero_hash_def VerifyDCFFinality_def
      test_env_call_answers answering_node_def Let_def Logger_Info_def Logger_Warning_def
      emit_def empty_world_def HasSuffix_def eval_nat_numeral)

text \<open>
  C5 (amended). When both calls of \<open>VerifyDCFFinality\<close> succeed and decode, it returns
  no error and logs the hash, followed by the two warning lines if and only if the hash is
  exactly \<open>0x\<close> or ends in 60 characters \<open>0\<close>, and by the success line for every other
  hash. The all-zero pattern of 64 hex digits ends in 60 zeros, so it gets the warning; the
  string of length 0 does not meet the test.
\<close>

theorem finality_classification:
  assumes "makeRPCCall env c finalized_head_request
             (Logger_Info ''Verifying DCF finality integration...'' [] w) = (Inr resp, w1)"
    and "json_Unmarshal_string env (resp_Result resp) = Inr h"
    and "makeRPCCall env c (block_request h) w1 = (Inr resp', w2)"
    and "json_Unmarshal_map env (resp_Result resp') = None"
  shows "VerifyDCFFinality env c w =
           (None,
            w2\<lparr>trace := trace w2 @ Log Info ''Finalized block hash: %s'' [AStr h] #
               (if h = ''0x'' \<or> (\<exists>p. h = p @ replicate 60 (CHR ''0''))
                then [Log Warning ''WARNING: Finalized head appears to be genesis block - DCF finality may not be syncing properly'' [],
                      Log Warning ''This is expected if the chain just started. If blocks are being produced but not finalized, check the finality sync task in cbc-node/src/service.rs'' []]
                else [Log Info ''DCF finality verification passed'' []])\<rparr>)
       \<and> (\<exists>p. all_zero_hash = p @ replicate 60 (CHR ''0''))
       \<and> \<not> ([] = ''0x'' \<or> (\<exists>p. [] = p @ replicate 60 (CHR ''0'')))"
proof -
  have c: "HasSuffix h ''000000000000000000000000000000000000000000000000000000000000'' = (\<exists>p. h = p @ replicate 60 (CHR ''0''))"
    unfolding HasSuffix_iff_append sixty_zeros ..
  have "replicate 64 (CHR ''0'') = replicate 4 (CHR ''0'') @ replicate 60 (CHR ''0'')"
    by (simp add: replicate_add[symmetric])
  then have "all_zero_hash = (''0x'' @ replicate 4 (CHR ''0'')) @ replicate 60 (CHR ''0'')"
    by (simp add: all_zero_hash_def)
  then have z: "\<exists>p. all_zero_hash = p @ replicate 60 (CHR ''0'')" by blast
  have e: "\<not> ([] = ''0x'' \<or> (\<exists>p. [] = p @ replicate 60 (CHR ''0'')))" by simp
  show ?thesis
    using VerifyDCFFinality_classifies[OF assms] z e unfolding c by blast
qed

theorem finality_classification_witness:
  "VerifyDCFFinality (test_env (answering_node ''0x3b8f1c2d3b8f1c2d3b8f1c2d3b8f1c2d3b8f1c2d3b8f1c2d3b8f1c2d3b8f1c2d'')) test_initializer empty_world
      = (None,
         \<lparr>store = None,
          trace =
            [Log Info ''Verifying DCF finality integration...'' [],
             RPCCall finalized_head_request,
             RPCCall (block_request ''0x3b8f1c2d3b8f1c2d3b8f1c2d3b8f1c2d3b8f1c2d3b8f1c2d3b8f1c2d3b8f1c2d''),
             Log Info ''Finalized block hash: %s'' [AStr ''0x3b8f1c2d3b8f1c2d3b8f1c2d3b8f1c2d3b8f1c2d3b8f1c2d3b8f1c2d3b8f1c2d''],
             Log Info ''DCF finality verification passed'' []]\<rparr>)
   \<and> VerifyDCFFinality (test_env (answering_node ''0x'')) test_initializer empty_world
      = (None,
         \<lparr>store = None,
          trace =
            [Log Info ''Verifying DCF finality integration...'' [],
             RPCCall finalized_head_request,
             RPCCall (block_request ''0x''),
             Log Info ''Finalized block hash: %s'' [AStr ''0x''],
             Log Warning ''WARNING: Finalized head appears to be genesis block - DCF finality may not be syncing properly'' [],
             Log Warning ''This is expected if the chain just started. If blocks are being produced but not finalized, check the finality sync task in cbc-node/src/service.rs'' []]\<rparr>)"
proof -
  let ?w0 = "Logger_Info ''Verifying DCF finality integration...'' [] empty_world"
  have c1: "makeRPCCall (test_env (answering_node a)) test_initializer finalized_head_request ?w0
          = (Inr \<lparr>resp_ID = 1, resp_JSONRPC = ''2.0'', resp_Result = a, resp_Error = None\<rparr>,
             emit (RPCCall finalized_head_request) ?w0)" for a
    by (simp add: test_env_call_answers answering_node_def)
  have d1: "json_Unmarshal_string (test_env (answering_node a))
              (resp_Result \<lparr>resp_ID = 1, resp_JSONRPC = ''2.0'', resp_Result = a,
                 resp_Error = None\<rparr>) = Inr a" for a
    by simp
  have c2: "makeRPCCall (test_env (answering_node a)) test_initializer (block_request a)
              (emit (RPCCall finalized_head_request) ?w0)
          = (Inr \<lparr>resp_ID = 1, resp_JSONRPC = ''2.0'', resp_Result = a, resp_Error = None\<rparr>,
             emit (RPCCall (block_request a)) (emit (RPCCall finalized_head_request) ?w0))" for a
    by (simp add: test_env_call_answers answering_node_def)
  have d2: "json_Unmarshal_map (test_env (answering_node a))
              (resp_Result \<lparr>resp_ID = 1, resp_JSONRPC = ''2.0'', resp_Result = a,
                 resp_Error = None\<rparr>) = None" for a
    by simp
  have n: "\<not> (\<exists>p. ''0x3b8f1c2d3b8f1c2d3b8f1c2d3b8f1c2d3b8f1c2d3b8f1c2d3b8f1c2d3b8f1c2d'' = p @ replicate 60 (CHR ''0''))"
  proof
    assume "\<exists>p. ''0x3b8f1c2d3b8f1c2d3b8f1c2d3b8f1c2d3b8f1c2d3b8f1c2d3b8f1c2d3b8f1c2d'' = p @ replicate 60 (CHR ''0'')"
    then have "HasSuffix ''0x3b8f1c2d3b8f1c2d3b8f1c2d3b8f1c2d3b8f1c2d3b8f1c2d3b8f1c2d3b8f1c2d'' (replicate 60 (CHR ''0''))"
      by (simp only: HasSuffix_iff_append)
    then show False by (simp add: HasSuffix_def eval_nat_numeral)
  qed
  note t1 = finality_classification [OF c1 d1 c2 d2, of "''0x3b8f1c2d3b8f1c2d3b8f1c2d3b8f1c2d3b8f1c2d3b8f1c2d3b8f1c2d3b8f1c2d''"]
  note t2 = finality_classification [OF c1 d1 c2 d2, of "''0x''"]
  show ?thesis
    using t1 t2 n
    by (simp add: Logger_Info_def emit_def empty_world_def)
qed

section \<open>The network name and the caller\<close>

lemma applicable_iff:
  "(ToLower s \<noteq> ''cbc'' \<and> ToLower s \<noteq> ''cbc-chain'' \<and> \<not> Contains (ToLower s) ''cbc'')
     = (\<not> contains_cbc_ignoring_case s)"
proof -
  have "Contains ''cbc'' ''cbc''" "Contains ''cbc-chain'' ''cbc''"
    by (simp_all add: HasPrefix_def)
  then show ?thesis unfolding Contains_ToLower_iff[symmetric] by metis
qed

lemma initCBCChain_not_applicable:
  assumes "\<not> contains_cbc_ignoring_case (NetworkNode util)"
  shows "initCBCChain env d util w =
           (Some (Errorf ''not a CBC network'' []),
            Logger_Info ''Not a CBC Chain network (network: %s), skipping CBC initialization''
              [AStr (NetworkNode util)]
              (Logger_Info ''Initializing CBC Chain specific components...'' [] w))"
proof -
  have p: "ToLower (NetworkNode util) \<noteq> ''cbc'' \<and> ToLower (NetworkNode util) \<noteq> ''cbc-chain''
           \<and> \<not> Contains (ToLower (NetworkNode util)) ''cbc''"
    using assms applicable_iff[of "NetworkNode util"] by blast
  show ?thesis unfolding initCBCChain_def Let_def by (simp only: if_P[OF p])
qed

lemma initCBCChain_applicable:
  assumes "contains_cbc_ignoring_case (NetworkNode util)"
  shows "initCBCChain env d util w =
     (let w = Logger_Info ''Detected CBC Chain network: %s'' [AStr (NetworkNode util)]
                (Logger_Info ''Initializing CBC Chain specific components...'' [] w);
           cbcInit = NewCBCInitializer d (WSEndPoint util)
       in case Initialize env cbcInit w of
            (Some err, w) \<Rightarrow> (Some (Errorf ''CBC initialization failed: %w'' [AErr err]), w)
          | (None, w) \<Rightarrow>
      (let w = (case VerifyDCFFinality env cbcInit w of
                  (Some err, w) \<Rightarrow>
                    Logger_Warning ''DCF finality verification warning: %v'' [AErr err] w
                | (None, w) \<Rightarrow> w)
       in (None, Logger_Info ''CBC Chain initialization completed successfully'' [] w)))"
proof -
  have n: "\<not> (ToLower (NetworkNode util) \<noteq> ''cbc'' \<and> ToLower (NetworkNode util) \<noteq> ''cbc-chain''
           \<and> \<not> Contains (ToLower (NetworkNode util)) ''cbc'')"
    using assms applicable_iff[of "NetworkNode util"] by blast
  show ?thesis unfolding initCBCChain_def Let_def by (simp only: if_not_P[OF n])
qed

lemma initCBCChain_applicable_result:
  assumes "contains_cbc_ignoring_case (NetworkNode util)"
  shows "fst (initCBCChain env d util w) \<noteq> Some (Errorf ''not a CBC network'' [])"
  unfolding initCBCChain_applicable[OF assms]
  by (simp add: Let_def split: prod.splits option.splits)

lemma makeRPCCall_worldD:
  "makeRPCCall env c req w = (r, w') \<Longrightarrow> w' = emit (RPCCall req) w"
  using makeRPCCall_world[of env c req w] by simp

lemma VerifyDCFFinality_extends:
  "prefix (trace w) (trace (snd (VerifyDCFFinality env c w)))"
proof -
  let ?w0 = "Logger_Info ''Verifying DCF finality integration...'' [] w"
  obtain r1 w1 where c1: "makeRPCCall env c finalized_head_request ?w0 = (r1, w1)"
    by (cases "makeRPCCall env c finalized_head_request ?w0")
  have w1: "trace w1 = trace w @ [Log Info ''Verifying DCF finality integration...'' [],
                                  RPCCall finalized_head_request]"
    using makeRPCCall_worldD[OF c1] by (simp add: Logger_Info_def trace_emit)
  show ?thesis
  proof (cases r1)
    case (Inl e)
    then show ?thesis using c1 w1 by (simp add: VerifyDCFFinality_def)
  next
    case (Inr resp)
    show ?thesis
    proof (cases "json_Unmarshal_string env (resp_Result resp)")
      case (Inl e)
      then show ?thesis using c1 w1 Inr by (simp add: VerifyDCFFinality_def)
    next
      case (Inr h)
      obtain r2 w2 where c2: "makeRPCCall env c (block_request h) w1 = (r2, w2)"
        by (cases "makeRPCCall env c (block_request h) w1")
      have w2: "trace w2 = trace w @ [Log Info ''Verifying DCF finality integration...'' [],
                                  RPCCall finalized_head_request, RPCCall (block_request h)]"
        using makeRPCCall_worldD[OF c2] w1 by (simp add: trace_emit)
      show ?thesis
        using c1 \<open>r1 = Inr resp\<close> Inr c2 w2
        by (cases r2; cases "json_Unmarshal_map env (resp_Result (projr r2))")
           (simp_all add: VerifyDCFFinality_def Let_def Logger_Info_def Logger_Warning_def
              trace_emit)
    qed
  qed
qed

lemma Initialize_bootstrap_from:
  "prefix (trace w) (trace (snd (Initialize_bootstrap env c w)))"
proof -
  let ?wb = "Logger_Info ''Runtime versions table is empty or incomplete, bootstrapping...'' [] w"
  have "prefix (trace ?wb) (trace (snd (fetchRuntimeVersion env c ?wb)))"
    using fetchRuntimeVersion_loop_extends[of ?wb env c 0 None]
    by (simp add: fetchRuntimeVersion_def)
  moreover have "prefix (trace w) (trace ?wb)"
    by (simp add: Logger_Info_def prefix_emit)
  ultimately show ?thesis
    using Initialize_bootstrap_extends[of env c w] prefix_order.trans by blast
qed

lemma Initialize_starts:
  "prefix (trace w @ [Log Info ''Starting CBC Chain initialization...'' []])
     (trace (snd (Initialize env c w)))"
proof -
  let ?ws = "Logger_Info ''Starting CBC Chain initialization...'' [] w"
  have t: "trace ?ws = trace w @ [Log Info ''Starting CBC Chain initialization...'' []]"
    by (simp add: Logger_Info_def trace_emit)
  show ?thesis
  proof (cases "has_usable_metadata (RuntimeVersionRecent (dao c) (store w))")
    case True
    then show ?thesis
      by (simp add: Initialize_def Let_def Logger_Info_def store_emit trace_emit)
  next
    case False
    then show ?thesis
      using Initialize_bootstrap_from[of ?ws env c] by (simp add: Initialize_bootstraps t)
  qed
qed

lemma initCBCChain_runs_Initialize:
  fixes d :: "'s IDao" and util :: util_config and w :: "'s world"
  defines "cbcInit \<equiv> NewCBCInitializer d (WSEndPoint util)"
    and "wd \<equiv> Logger_Info ''Detected CBC Chain network: %s'' [AStr (NetworkNode util)]
                (Logger_Info ''Initializing CBC Chain specific components...'' [] w)"
  assumes app: "contains_cbc_ignoring_case (NetworkNode util)"
  shows "fst (initCBCChain env d util w)
           = (case fst (Initialize env cbcInit wd) of
                None \<Rightarrow> None
              | Some err \<Rightarrow> Some (Errorf ''CBC initialization failed: %w'' [AErr err]))"
    and "prefix (trace (snd (Initialize env cbcInit wd))) (trace (snd (initCBCChain env d util w)))"
proof -
  obtain r wi where i: "Initialize env cbcInit wd = (r, wi)"
    by (cases "Initialize env cbcInit wd")
  obtain r' wz where v: "VerifyDCFFinality env cbcInit wi = (r', wz)"
    by (cases "VerifyDCFFinality env cbcInit wi")
  have pv: "prefix (trace wi) (trace wz)"
    using VerifyDCFFinality_extends[of wi env cbcInit] v by simp
  show "fst (initCBCChain env d util w)
           = (case fst (Initialize env cbcInit wd) of
                None \<Rightarrow> None
              | Some err \<Rightarrow> Some (Errorf ''CBC initialization failed: %w'' [AErr err]))"
    unfolding initCBCChain_applicable[OF app] using i
    by (cases r) (simp_all add: Let_def cbcInit_def wd_def)
  show "prefix (trace (snd (Initialize env cbcInit wd))) (trace (snd (initCBCChain env d util w)))"
  proof (cases r)
    case (Some err)
    then show ?thesis
      unfolding initCBCChain_applicable[OF app] using i
      by (simp add: Let_def cbcInit_def wd_def)
  next
    case None
    have "prefix (trace wi)
            (trace (Logger_Info ''CBC Chain initialization completed successfully'' []
               (case r' of
                  None \<Rightarrow> wz
                | Some err \<Rightarrow>
                    Logger_Warning ''DCF finality verification warning: %v'' [AErr err] wz)))"
      using pv by (cases r') (auto simp: Logger_Info_def Logger_Warning_def trace_emit prefix_def)
    then show ?thesis
      unfolding initCBCChain_applicable[OF app] using i v None
      by (cases r') (simp_all add: Let_def cbcInit_def wd_def)
  qed
qed

text \<open>
  C7. \<open>initCBCChain\<close> returns the error \<open>not a CBC network\<close> if and only if the
  configured network name does not contain \<open>cbc\<close>, compared case-insensitively (the name
  is read as a string of bytes, of which \<open>A\<close>..\<open>Z\<close> are lowered). For such a name it only
  writes two log lines: no request is handed to \<open>makeRPCCall\<close>, no write is issued, the
  store is unchanged; and \<open>New\<close> logs the error as a warning and goes on with
  \<open>initSubRuntimeLatest\<close>, the generic initialization. For a name that does contain
  \<open>cbc\<close> the initializer runs: after the two log lines of the detection \<open>Initialize\<close> is
  called on the initializer of \<open>NewCBCInitializer\<close>, its events (beginning with its first
  log line) are in the trace of \<open>initCBCChain\<close>, and \<open>initCBCChain\<close> fails exactly when
  \<open>Initialize\<close> does, with that error wrapped.
\<close>

theorem network_name_matching:
  "(fst (initCBCChain env d util w) \<noteq> Some (Errorf ''not a CBC network'' []))
     = contains_cbc_ignoring_case (NetworkNode util)
   \<and> (\<not> contains_cbc_ignoring_case (NetworkNode util) \<longrightarrow>
        initCBCChain env d util w =
          (Some (Errorf ''not a CBC network'' []),
           w\<lparr>trace := trace w @
              [Log Info ''Initializing CBC Chain specific components...'' [],
               Log Info ''Not a CBC Chain network (network: %s), skipping CBC initialization''
                 [AStr (NetworkNode util)]]\<rparr>)
      \<and> rpc_calls (snd (initCBCChain env d util w)) = rpc_calls w
      \<and> store_writes (snd (initCBCChain env d util w)) = store_writes w
      \<and> store (snd (initCBCChain env d util w)) = store w
      \<and> New env d util w =
          w\<lparr>trace := trace w @
              [Log Info ''Initializing CBC Chain specific components...'' [],
               Log Info ''Not a CBC Chain network (network: %s), skipping CBC initialization''
                 [AStr (NetworkNode util)],
               Log Warning ''CBC initialization warning: %v''
                 [AErr (Errorf ''not a CBC network'' [])],
               Invoke ''initSubRuntimeLatest'']\<rparr>)
   \<and> (contains_cbc_ignoring_case (NetworkNode util) \<longrightarrow>
        fst (initCBCChain env d util w)
          = (case fst (Initialize env (NewCBCInitializer d (WSEndPoint util))
                         (Logger_Info ''Detected CBC Chain network: %s''
                            [AStr (NetworkNode util)]
                            (Logger_Info ''Initializing CBC Chain specific components...'' [] w)))
             of None \<Rightarrow> None
              | Some err \<Rightarrow> Some (Errorf ''CBC initialization failed: %w'' [AErr err]))
      \<and> prefix
           (trace (snd (Initialize env (NewCBCInitializer d (WSEndPoint util))
                          (Logger_Info ''Detected CBC Chain network: %s''
                             [AStr (NetworkNode util)]
                             (Logger_Info ''Initializing CBC Chain specific components...'' []
                                w)))))
           (trace (snd (initCBCChain env d util w)))
      \<and> prefix
           (trace w @
              [Log Info ''Initializing CBC Chain specific components...'' [],
               Log Info ''Detected CBC Chain network: %s'' [AStr (NetworkNode util)],
               Log Info ''Starting CBC Chain initialization...'' []])
           (trace (snd (initCBCChain env d util w))))"
proof -
  let ?c = "NewCBCInitializer d (WSEndPoint util)"
  let ?wd = "Logger_Info ''Detected CBC Chain network: %s'' [AStr (NetworkNode util)]
               (Logger_Info ''Initializing CBC Chain specific components...'' [] w)"
  have a: "(fst (initCBCChain env d util w) \<noteq> Some (Errorf ''not a CBC network'' []))
     = contains_cbc_ignoring_case (NetworkNode util)"
  proof (cases "contains_cbc_ignoring_case (NetworkNode util)")
    case True
    then show ?thesis using initCBCChain_applicable_result[of util env d w] by simp
  next
    case False
    then show ?thesis using initCBCChain_not_applicable[of util env d w] by simp
  qed
  have b: "initCBCChain env d util w =
          (Some (Errorf ''not a CBC network'' []),
           w\<lparr>trace := trace w @
              [Log Info ''Initializing CBC Chain specific components...'' [],
               Log Info ''Not a CBC Chain network (network: %s), skipping CBC initialization''
                 [AStr (NetworkNode util)]]\<rparr>)"
    if "\<not> contains_cbc_ignoring_case (NetworkNode util)"
    using initCBCChain_not_applicable[OF that, of env d w]
    by (simp add: Logger_Info_def emit_def)
  have n: "\<not> contains_cbc_ignoring_case (NetworkNode util) \<longrightarrow>
        initCBCChain env d util w =
          (Some (Errorf ''not a CBC network'' []),
           w\<lparr>trace := trace w @
              [Log Info ''Initializing CBC Chain specific components...'' [],
               Log Info ''Not a CBC Chain network (network: %s), skipping CBC initialization''
                 [AStr (NetworkNode util)]]\<rparr>)
      \<and> rpc_calls (snd (initCBCChain env d util w)) = rpc_calls w
      \<and> store_writes (snd (initCBCChain env d util w)) = store_writes w
      \<and> store (snd (initCBCChain env d util w)) = store w
      \<and> New env d util w =
          w\<lparr>trace := trace w @
              [Log Info ''Initializing CBC Chain specific components...'' [],
               Log Info ''Not a CBC Chain network (network: %s), skipping CBC initialization''
                 [AStr (NetworkNode util)],
               Log Warning ''CBC initialization warning: %v''
                 [AErr (Errorf ''not a CBC network'' [])],
               Invoke ''initSubRuntimeLatest'']\<rparr>"
    using b by (auto simp: rpc_calls_def store_writes_def New_def Logger_Warning_def emit_def)
  have y: "fst (initCBCChain env d util w)
          = (case fst (Initialize env ?c ?wd) of None \<Rightarrow> None
              | Some err \<Rightarrow> Some (Errorf ''CBC initialization failed: %w'' [AErr err]))
      \<and> prefix (trace (snd (Initialize env ?c ?wd))) (trace (snd (initCBCChain env d util w)))
      \<and> prefix
           (trace w @
              [Log Info ''Initializing CBC Chain specific components...'' [],
               Log Info ''Detected CBC Chain network: %s'' [AStr (NetworkNode util)],
               Log Info ''Starting CBC Chain initialization...'' []])
           (trace (snd (initCBCChain env d util w)))"
    if app: "contains_cbc_ignoring_case (NetworkNode util)"
  proof -
    note r = initCBCChain_runs_Initialize[OF app, of env d w]
    have "prefix (trace ?wd @ [Log Info ''Starting CBC Chain initialization...'' []])
            (trace (snd (Initialize env ?c ?wd)))"
      by (rule Initialize_starts)
    then have "prefix (trace ?wd @ [Log Info ''Starting CBC Chain initialization...'' []])
            (trace (snd (initCBCChain env d util w)))"
      using r(2) prefix_order.trans by blast
    then show ?thesis using r by (simp add: Logger_Info_def trace_emit)
  qed
  show ?thesis using a n y by blast
qed

theorem network_name_matching_witness:
  "\<not> contains_cbc_ignoring_case (NetworkNode (test_util ''Polkadot''))
   \<and> initCBCChain (test_env unreachable_node) memory_dao (test_util ''Polkadot'') empty_world
      = (Some (Errorf ''not a CBC network'' []),
         \<lparr>store = None,
          trace =
            [Log Info ''Initializing CBC Chain specific components...'' [],
             Log Info ''Not a CBC Chain network (network: %s), skipping CBC initialization''
               [AStr ''Polkadot'']]\<rparr>)
   \<and> New (test_env unreachable_node) memory_dao (test_util ''Polkadot'') empty_world
      = \<lparr>store = None,
         trace =
           [Log Info ''Initializing CBC Chain specific components...'' [],
            Log Info ''Not a CBC Chain network (network: %s), skipping CBC initialization''
              [AStr ''Polkadot''],
            Log Warning ''CBC initialization warning: %v''
              [AErr (Errorf ''not a CBC network'' [])],
            Invoke ''initSubRuntimeLatest'']\<rparr>
   \<and> contains_cbc_ignoring_case (NetworkNode (test_util ''CBC-Chain''))
   \<and> fst (initCBCChain (test_env unreachable_node) memory_dao (test_util ''CBC-Chain'')
        empty_world) \<noteq> Some (Errorf ''not a CBC network'' [])
   \<and> prefix
        [Log Info ''Initializing CBC Chain specific components...'' [],
         Log Info ''Detected CBC Chain network: %s'' [AStr ''CBC-Chain''],
         Log Info ''Starting CBC Chain initialization...'' []]
        (trace (snd (initCBCChain (test_env unreachable_node) memory_dao
                       (test_util ''CBC-Chain'') empty_world)))
   \<and> initCBCChain (test_env unreachable_node) memory_dao (test_util ''CBC-Chain'')
        \<lparr>store = Some (stored_row ''0x6d657461''), trace = []\<rparr>
      = (None,
         \<lparr>store = Some (stored_row ''0x6d657461''),
          trace =
            [Log Info ''Initializing CBC Chain specific components...'' [],
             Log Info ''Detected CBC Chain network: %s'' [AStr ''CBC-Chain''],
             Log Info ''Starting CBC Chain initialization...'' [],
             Log Info ''Runtime version already exists (spec: %d), skipping bootstrap''
               [AInt 100],
             Log Info ''Verifying DCF finality integration...'' [],
             RPCCall finalized_head_request,
             Log Warning ''DCF finality verification warning: %v''
               [AErr (Errorf ''failed to get finalized head: %w''
                  [AErr (Errorf ''failed to make request: %w''
                     [AErr (Errorf ''connection refused'' [])])])],
             Log Info ''CBC Chain initialization completed successfully'' []]\<rparr>)"
proof -
  have n: "\<not> contains_cbc_ignoring_case (NetworkNode (test_util ''Polkadot''))"
    unfolding Contains_ToLower_iff[symmetric]
    by (simp add: test_util_def ToLower_def lower_char_def HasPrefix_def char_of_eq_iff)
  have y: "contains_cbc_ignoring_case (NetworkNode (test_util ''CBC-Chain''))"
    unfolding Contains_ToLower_iff[symmetric]
    by (simp add: test_util_def ToLower_def lower_char_def HasPrefix_def char_of_eq_iff)
  have run: "initCBCChain (test_env unreachable_node) memory_dao (test_util ''CBC-Chain'')
        \<lparr>store = Some (stored_row ''0x6d657461''), trace = []\<rparr>
      = (None,
         \<lparr>store = Some (stored_row ''0x6d657461''),
          trace =
            [Log Info ''Initializing CBC Chain specific components...'' [],
             Log Info ''Detected CBC Chain network: %s'' [AStr ''CBC-Chain''],
             Log Info ''Starting CBC Chain initialization...'' [],
             Log Info ''Runtime version already exists (spec: %d), skipping bootstrap''
               [AInt 100],
             Log Info ''Verifying DCF finality integration...'' [],
             RPCCall finalized_head_request,
             Log Warning ''DCF finality verification warning: %v''
               [AErr (Errorf ''failed to get finalized head: %w''
                  [AErr (Errorf ''failed to make request: %w''
                     [AErr (Errorf ''connection refused'' [])])])],
             Log Info ''CBC Chain initialization completed successfully'' []]\<rparr>)"
    unfolding initCBCChain_applicable[OF y]
    by (simp add: Let_def Initialize_def has_usable_metadata_def NewCBCInitializer_fields
        memory_dao_def Logger_Info_def Logger_Warning_def emit_def stored_row_def HasPrefix_def
        VerifyDCFFinality_def test_env_call_fails unreachable_node_def test_util_def)
  note t1 = network_name_matching [of "test_env unreachable_node" memory_dao
      "test_util ''Polkadot''" empty_world]
  note t2 = network_name_matching [of "test_env unreachable_node" memory_dao
      "test_util ''CBC-Chain''" empty_world]
  from y t2 have ne: "fst (initCBCChain (test_env unreachable_node) memory_dao
        (test_util ''CBC-Chain'') empty_world) \<noteq> Some (Errorf ''not a CBC network'' [])"
    by blast
  from y t2 have "prefix
        (trace empty_world @
           [Log Info ''Initializing CBC Chain specific components...'' [],
            Log Info ''Detected CBC Chain network: %s''
              [AStr (NetworkNode (test_util ''CBC-Chain''))],
            Log Info ''Starting CBC Chain initialization...'' []])
        (trace (snd (initCBCChain (test_env unreachable_node) memory_dao
                       (test_util ''CBC-Chain'') empty_world)))"
    by blast
  then have pr: "prefix
        [Log Info ''Initializing CBC Chain specific components...'' [],
         Log Info ''Detected CBC Chain network: %s'' [AStr ''CBC-Chain''],
         Log Info ''Starting CBC Chain initialization...'' []]
        (trace (snd (initCBCChain (test_env unreachable_node) memory_dao
                       (test_util ''CBC-Chain'') empty_world)))"
    by (simp add: empty_world_def test_util_def)
  show ?thesis
    using n y run ne pr t1 by (simp add: empty_world_def test_util_def)
qed

lemma initCBCChain_finality_error:
  assumes "contains_cbc_ignoring_case (NetworkNode util)"
    and "Initialize env (NewCBCInitializer d (WSEndPoint util))
           (Logger_Info ''Detected CBC Chain network: %s'' [AStr (NetworkNode util)]
              (Logger_Info ''Initializing CBC Chain specific components...'' [] w)) = (None, wi)"
    and "VerifyDCFFinality env (NewCBCInitializer d (WSEndPoint util)) wi = (Some err, wz)"
  shows "initCBCChain env d util w =
           (None,
            wz\<lparr>trace := trace wz @
               [Log Warning ''DCF finality verification warning: %v'' [AErr err],
                Log Info ''CBC Chain initialization completed successfully'' []]\<rparr>)"
  unfolding initCBCChain_applicable[OF assms(1)] using assms(2,3)
  by (simp add: Let_def Logger_Info_def Logger_Warning_def emit_def)

text \<open>
  C6. Let the network name match and \<open>Initialize\<close> succeed. If the call of
  \<open>chain_getFinalizedHead\<close> fails, or that call succeeds and the call of \<open>chain_getBlock\<close>
  fails, then \<open>VerifyDCFFinality\<close> hands the wrapped error to \<open>initCBCChain\<close>, which logs
  it as a warning and returns no error; \<open>New\<close> goes on as after a successful
  initialization. (Each call is bounded by the 30-second timeout of the HTTP client,
  which is outside the model.)
\<close>

theorem finality_failure_swallowed:
  fixes d :: "'s IDao" and util :: util_config and w wi :: "'s world"
  defines "cbcInit \<equiv> NewCBCInitializer d (WSEndPoint util)"
    and "wd \<equiv> Logger_Info ''Detected CBC Chain network: %s'' [AStr (NetworkNode util)]
                (Logger_Info ''Initializing CBC Chain specific components...'' [] w)"
    and "wq \<equiv> Logger_Info ''Verifying DCF finality integration...'' [] wi"
  assumes app: "contains_cbc_ignoring_case (NetworkNode util)"
    and init: "Initialize env cbcInit wd = (None, wi)"
    and fail: "(makeRPCCall env cbcInit finalized_head_request wq = (Inl e, wz)
                \<and> err = Errorf ''failed to get finalized head: %w'' [AErr e])
             \<or> (makeRPCCall env cbcInit finalized_head_request wq = (Inr resp, w1)
                \<and> json_Unmarshal_string env (resp_Result resp) = Inr h
                \<and> makeRPCCall env cbcInit (block_request h) w1 = (Inl e, wz)
                \<and> err = Errorf ''failed to get finalized block: %w'' [AErr e])"
  shows "VerifyDCFFinality env cbcInit wi = (Some err, wz)
       \<and> initCBCChain env d util w =
           (None,
            wz\<lparr>trace := trace wz @
               [Log Warning ''DCF finality verification warning: %v'' [AErr err],
                Log Info ''CBC Chain initialization completed successfully'' []]\<rparr>)
       \<and> New env d util w =
            wz\<lparr>trace := trace wz @
               [Log Warning ''DCF finality verification warning: %v'' [AErr err],
                Log Info ''CBC Chain initialization completed successfully'' [],
                Invoke ''initSubRuntimeLatestWithoutFetch'']\<rparr>"
proof -
  have v: "VerifyDCFFinality env cbcInit wi = (Some err, wz)"
    using fail
  proof
    assume "makeRPCCall env cbcInit finalized_head_request wq = (Inl e, wz)
            \<and> err = Errorf ''failed to get finalized head: %w'' [AErr e]"
    then show ?thesis
      using VerifyDCFFinality_first_call_fails[of env cbcInit wi e wz] by (simp add: wq_def)
  next
    assume "makeRPCCall env cbcInit finalized_head_request wq = (Inr resp, w1)
            \<and> json_Unmarshal_string env (resp_Result resp) = Inr h
            \<and> makeRPCCall env cbcInit (block_request h) w1 = (Inl e, wz)
            \<and> err = Errorf ''failed to get finalized block: %w'' [AErr e]"
    then show ?thesis
      using VerifyDCFFinality_second_call_fails[of env cbcInit wi resp w1 h e wz]
      by (simp add: wq_def)
  qed
  have i: "initCBCChain env d util w =
           (None,
            wz\<lparr>trace := trace wz @
               [Log Warning ''DCF finality verification warning: %v'' [AErr err],
                Log Info ''CBC Chain initialization completed successfully'' []]\<rparr>)"
    using app init v unfolding cbcInit_def wd_def by (rule initCBCChain_finality_error)
  show ?thesis using v i by (simp add: New_def emit_def)
qed

theorem finality_failure_swallowed_witness:
  "contains_cbc_ignoring_case (NetworkNode (test_util ''cbc-chain''))
   \<and> initCBCChain (test_env unreachable_node) memory_dao (test_util ''cbc-chain'')
        \<lparr>store = Some (stored_row ''0x6d657461''), trace = []\<rparr>
      = (None,
         \<lparr>store = Some (stored_row ''0x6d657461''),
          trace =
            [Log Info ''Initializing CBC Chain specific components...'' [],
             Log Info ''Detected CBC Chain network: %s'' [AStr ''cbc-chain''],
             Log Info ''Starting CBC Chain initialization...'' [],
             Log Info ''Runtime version already exists (spec: %d), skipping bootstrap''
               [AInt 100],
             Log Info ''Verifying DCF finality integration...'' [],
             RPCCall finalized_head_request,
             Log Warning ''DCF finality verification warning: %v''
               [AErr (Errorf ''failed to get finalized head: %w''
                  [AErr (Errorf ''failed to make request: %w''
                     [AErr (Errorf ''connection refused'' [])])])],
             Log Info ''CBC Chain initialization completed successfully'' []]\<rparr>)
   \<and> initCBCChain (test_env head_only_node) memory_dao (test_util ''cbc-chain'')
        \<lparr>store = Some (stored_row ''0x6d657461''), trace = []\<rparr>
      = (None,
         \<lparr>store = Some (stored_row ''0x6d657461''),
          trace =
            [Log Info ''Initializing CBC Chain specific components...'' [],
             Log Info ''Detected CBC Chain network: %s'' [AStr ''cbc-chain''],
             Log Info ''Starting CBC Chain initialization...'' [],
             Log Info ''Runtime version already exists (spec: %d), skipping bootstrap''
               [AInt 100],
             Log Info ''Verifying DCF finality integration...'' [],
             RPCCall finalized_head_request,
             RPCCall (block_request ''0x3b8f''),
             Log Warning ''DCF finality verification warning: %v''
               [AErr (Errorf ''failed to get finalized block: %w''
                  [AErr (Errorf ''failed to make request: %w''
                     [AErr (Errorf ''connection refused'' [])])])],
             Log Info ''CBC Chain initialization completed successfully'' []]\<rparr>)"
proof -
  let ?u = "test_util ''cbc-chain''"
  let ?c = "NewCBCInitializer memory_dao (WSEndPoint ?u)"
  let ?w = "\<lparr>store = Some (stored_row ''0x6d657461''), trace = []\<rparr>
            :: model_RuntimeVersion option world"
  let ?wd = "Logger_Info ''Detected CBC Chain network: %s'' [AStr (NetworkNode ?u)]
                (Logger_Info ''Initializing CBC Chain specific components...'' [] ?w)"
  let ?wi = "Logger_Info ''Runtime version already exists (spec: %d), skipping bootstrap''
               [AInt 100] (Logger_Info ''Starting CBC Chain initialization...'' [] ?wd)"
  let ?wq = "Logger_Info ''Verifying DCF finality integration...'' [] ?wi"
  let ?e = "Errorf ''failed to make request: %w'' [AErr (Errorf ''connection refused'' [])]"
  let ?resp = "\<lparr>resp_ID = 1, resp_JSONRPC = ''2.0'', resp_Result = ''0x3b8f'',
                resp_Error = None\<rparr>"
  have app: "contains_cbc_ignoring_case (NetworkNode ?u)"
    unfolding Contains_ToLower_iff[symmetric]
    by (simp add: test_util_def ToLower_def lower_char_def HasPrefix_def char_of_eq_iff)
  have init: "Initialize env ?c ?wd = (None, ?wi)" for env
    by (simp add: Initialize_def Let_def has_usable_metadata_def NewCBCInitializer_fields
        memory_dao_def Logger_Info_def store_emit stored_row_def HasPrefix_def)
  have f1: "(makeRPCCall (test_env unreachable_node) ?c finalized_head_request ?wq
               = (Inl ?e, emit (RPCCall finalized_head_request) ?wq)
             \<and> Errorf ''failed to get finalized head: %w'' [AErr ?e]
               = Errorf ''failed to get finalized head: %w'' [AErr ?e])
            \<or> (makeRPCCall (test_env unreachable_node) ?c finalized_head_request ?wq
                 = (Inr ?resp, ?wq)
               \<and> json_Unmarshal_string (test_env unreachable_node) (resp_Result ?resp) = Inr []
               \<and> makeRPCCall (test_env unreachable_node) ?c (block_request []) ?wq
                 = (Inl ?e, emit (RPCCall finalized_head_request) ?wq)
               \<and> Errorf ''failed to get finalized head: %w'' [AErr ?e]
                 = Errorf ''failed to get finalized block: %w'' [AErr ?e])"
    by (simp add: test_env_call_fails unreachable_node_def)
  have f2: "(makeRPCCall (test_env head_only_node) ?c finalized_head_request ?wq
               = (Inl ?e, emit (RPCCall (block_request ''0x3b8f''))
                            (emit (RPCCall finalized_head_request) ?wq))
             \<and> Errorf ''failed to get finalized block: %w'' [AErr ?e]
               = Errorf ''failed to get finalized head: %w'' [AErr ?e])
            \<or> (makeRPCCall (test_env head_only_node) ?c finalized_head_request ?wq
                 = (Inr ?resp, emit (RPCCall finalized_head_request) ?wq)
               \<and> json_Unmarshal_string (test_env head_only_node) (resp_Result ?resp)
                 = Inr ''0x3b8f''
               \<and> makeRPCCall (test_env head_only_node) ?c (block_request ''0x3b8f'')
                   (emit (RPCCall finalized_head_request) ?wq)
                 = (Inl ?e, emit (RPCCall (block_request ''0x3b8f''))
                              (emit (RPCCall finalized_head_request) ?wq))
               \<and> Errorf ''failed to get finalized block: %w'' [AErr ?e]
                 = Errorf ''failed to get finalized block: %w'' [AErr ?e])"
    by (simp add: test_env_call_fails test_env_call_answers head_only_node_def
        finalized_head_request_def block_request_def)
  note t1 = finality_failure_swallowed [OF app init f1]
  note t2 = finality_failure_swallowed [OF app init f2]
  show ?thesis
    using app t1 t2
    by (simp add: Logger_Info_def emit_def test_util_def)
qed


end
